theory Spec2Isabelle
  imports Main
begin

section \<open>JavaScript values used by the consumer\<close>

text \<open>
  A JavaScript string is modelled by \<^typ>\<open>string\<close>: one \<^typ>\<open>char\<close> per code unit, for
  strings whose code units are below 256. (The text a payload decodes to may hold any
  code unit; its type is a parameter of the runtime, see below.) \<open>undefined\<close> is \<open>None\<close>.
  A thrown \<open>Error\<close> is a value of type \<open>error\<close>; a computation that may throw returns
  \<open>error + 'a\<close>.
\<close>

datatype error = Error string

text \<open>Truthiness of \<open>string | undefined\<close>: \<open>undefined\<close> and the empty string are falsy.\<close>

fun truthy :: "string option \<Rightarrow> bool" where
  "truthy None = False"
| "truthy (Some s) = (s \<noteq> [])"

text \<open>\<open>a || b\<close> on \<open>string | undefined\<close> operands.\<close>

definition js_or :: "string option \<Rightarrow> string option \<Rightarrow> string option" where
  "js_or a b = (if truthy a then a else b)"

text \<open>\<open>a || 'literal'\<close>: the result is always a string.\<close>

definition or_default :: "string option \<Rightarrow> string \<Rightarrow> string" where
  "or_default a d = (if truthy a then the a else d)"

text \<open>
  White space of \<open>String.prototype.trim\<close> and of \<open>parseInt\<close>, among the code units below
  256: TAB, LF, VT, FF, CR, SP and NBSP.
\<close>

definition is_ws :: "char \<Rightarrow> bool" where
  "is_ws c = ((of_char c :: nat) \<in> {9, 10, 11, 12, 13, 32, 160})"

definition trim :: "string \<Rightarrow> string" where
  "trim s = rev (dropWhile is_ws (rev (dropWhile is_ws s)))"

text \<open>
  \<open>s.split(',')\<close>: the pieces between the commas. The result is never empty: the empty
  string splits into one empty piece.
\<close>

fun String_split :: "string \<Rightarrow> string list" where
  "String_split [] = [[]]"
| "String_split (c # cs) =
     (if c = CHR '','' then [] # String_split cs
      else (case String_split cs of
              [] \<Rightarrow> [[c]]
            | w # ws \<Rightarrow> (c # w) # ws))"

text \<open>
  A JavaScript number as \<open>parseInt\<close> returns it: an integer or \<open>NaN\<close>. (The integer is
  exact up to \<open>2 ^ 53\<close>; beyond that JavaScript rounds to the nearest double.)
\<close>

datatype number = Num int | NaN

definition digit_of :: "nat \<Rightarrow> char \<Rightarrow> nat option" where
  "digit_of radix c =
     (let n = (of_char c :: nat);
          v = (if 48 \<le> n \<and> n \<le> 57 then Some (n - 48)
               else if 97 \<le> n \<and> n \<le> 122 then Some (n - 87)
               else if 65 \<le> n \<and> n \<le> 90 then Some (n - 55)
               else None)
      in case v of
           None \<Rightarrow> None
         | Some d \<Rightarrow> if d < radix then Some d else None)"

text \<open>
  \<open>parseInt(s)\<close> with no radix, after the steps of ECMAScript: skip leading white space,
  read a sign, strip a \<open>0x\<close>/\<open>0X\<close> prefix (radix 16, otherwise 10), take the longest prefix
  of digits; no digit gives \<open>NaN\<close>.
\<close>

definition parseInt :: "string \<Rightarrow> number" where
  "parseInt input =
     (let s = dropWhile is_ws input;
          neg = (s \<noteq> [] \<and> hd s = CHR ''-'');
          s1 = (if s \<noteq> [] \<and> (hd s = CHR ''+'' \<or> hd s = CHR ''-'') then tl s else s);
          hex = (2 \<le> length s1 \<and> (take 2 s1 = ''0x'' \<or> take 2 s1 = ''0X''));
          R = (if hex then 16 else 10);
          s2 = (if hex then drop 2 s1 else s1);
          z = takeWhile (\<lambda>c. digit_of R c \<noteq> None) s2
      in if z = [] then NaN
         else Num ((if neg then - 1 else 1) *
                   int (foldl (\<lambda>a c. a * R + the (digit_of R c)) 0 z)))"

text \<open>\<open>TextEncoder.encode\<close>: UTF-8, one or two bytes per code unit below 256.\<close>

definition utf8_unit :: "char \<Rightarrow> char list" where
  "utf8_unit c =
     (let n = (of_char c :: nat)
      in if n < 128 then [c]
         else [char_of (192 + n div 64), char_of (128 + n mod 64)])"

definition TextEncoder_encode :: "string \<Rightarrow> char list" where
  "TextEncoder_encode s = concat (map utf8_unit s)"

section \<open>The environment and the file system\<close>

text \<open>
  \<open>process.env\<close> after \<open>dotenv.config()\<close> is a map from variable names to strings. The file
  system maps a path to the text of the file there; reading a path with no file throws.
\<close>

type_synonym env = "string \<rightharpoonup> string"

type_synonym filesystem = "string \<rightharpoonup> string"

text \<open>The error of Node for a path with no file; the path is printed in single quotes.\<close>

definition ENOENT :: "string \<Rightarrow> error" where
  "ENOENT path =
     Error (''ENOENT: no such file or directory, open '' @ [CHR 0x27] @ path @ [CHR 0x27])"

text \<open>\<open>readFileSync(path, 'utf-8')\<close>: the text of the file.\<close>

definition readFileSync_utf8 :: "filesystem \<Rightarrow> string \<Rightarrow> error + string" where
  "readFileSync_utf8 fs path =
     (case fs path of
        None \<Rightarrow> Inl (ENOENT path)
      | Some text \<Rightarrow> Inr text)"

text \<open>\<open>readFileSync(path)\<close>: the bytes of the file.\<close>

definition readFileSync :: "filesystem \<Rightarrow> string \<Rightarrow> error + char list" where
  "readFileSync fs path =
     (case fs path of
        None \<Rightarrow> Inl (ENOENT path)
      | Some text \<Rightarrow> Inr (TextEncoder_encode text))"

section \<open>config.ts, core NATS variant (\<open>NATS_CREDS_FILE\<close>, \<open>NATS_USER_JWT\<close>, \<open>NATS_USER_SEED\<close>)\<close>

text \<open>
  The repository holds two variants of the configuration and of the consumer. The names
  of the core variant carry the suffix \<open>_c\<close> or \<open>_core\<close> where the JetStream variant has
  the same name. The field \<open>name\<close> of \<open>NATSConfig\<close> is \<open>conn_name\<close> here, and the field
  \<open>statsInterval\<close> of the consumer is \<open>statsIntervalTimer\<close>, since a stream and the settings
  have fields of these names too.
\<close>

record StreamConfig_core =
  name_c :: string
  subject_c :: string

record NATSConfig_core =
  serverUrl_c :: "string option"
  host_c :: string
  port_c :: number
  conn_name_c :: string
  credsFile :: "string option"
  userJwt :: "string option"
  userSeed :: "string option"

record Settings_core =
  nats_c :: NATSConfig_core
  streams_c :: "StreamConfig_core list"
  logLevel_c :: string
  statsInterval_c :: number

text \<open>
  \<open>process.env.X?.split(',') || dflt\<close>: an array is always truthy, so the default is
  taken only when the variable is not set.
\<close>

definition env_list :: "env \<Rightarrow> string \<Rightarrow> string list \<Rightarrow> string list" where
  "env_list e var dflt = (case e var of None \<Rightarrow> dflt | Some s \<Rightarrow> String_split s)"

definition mismatch_error :: error where
  "mismatch_error = Error ''Stream configuration arrays must have the same length''"

definition names_core :: "env \<Rightarrow> string list" where
  "names_core e = env_list e ''STREAM_NAMES'' [''basic-stream'']"

definition subjects_core :: "env \<Rightarrow> string list" where
  "subjects_core e = env_list e ''STREAM_SUBJECTS'' [''basic.pumpfun'']"

definition parseStreamConfig_core :: "env \<Rightarrow> error + StreamConfig_core list" where
  "parseStreamConfig_core e =
     (let names = names_core e;
          subjects = subjects_core e
      in if length names \<noteq> length subjects then Inl mismatch_error
         else Inr (map (\<lambda>(nm, index). \<lparr>name_c = trim nm, subject_c = trim (subjects ! index)\<rparr>)
                       (zip names [0 ..< length names])))"

definition settings_core :: "env \<Rightarrow> error + Settings_core" where
  "settings_core e =
     (let n = \<lparr>serverUrl_c = e ''NATS_SERVER_URL'',
               host_c = or_default (e ''NATS_HOST'') ''localhost'',
               port_c = parseInt (or_default (e ''NATS_PORT'') ''4222''),
               conn_name_c = or_default (e ''NATS_NAME'') ''solana-stream-consumer'',
               credsFile = js_or (e ''NATS_JWT_FILE'') (e ''NATS_CREDS_FILE''),
               userJwt = e ''NATS_USER_JWT'',
               userSeed = e ''NATS_USER_SEED''\<rparr>
      in case parseStreamConfig_core e of
           Inl err \<Rightarrow> Inl err
         | Inr ss \<Rightarrow>
             Inr \<lparr>nats_c = n, streams_c = ss,
                  logLevel_c = or_default (e ''LOG_LEVEL'') ''info'',
                  statsInterval_c = parseInt (or_default (e ''STATS_INTERVAL'') ''5000'')\<rparr>)"

section \<open>config.ts, JetStream variant (\<open>NATS_JWT\<close>, \<open>NATS_NKEY\<close>, TLS, \<open>JETSTREAM_NAMES\<close>)\<close>

record StreamConfig =
  name :: string
  subject :: string
  stream :: string

record TLSConfig =
  cert :: "string option"
  key :: "string option"
  ca :: "string option"

record NATSConfig =
  host :: string
  port :: number
  conn_name :: string
  jwt :: "string option"
  nkey :: "string option"
  jwtFile :: "string option"
  nkeyFile :: "string option"
  tls :: "TLSConfig option"

record Settings =
  nats :: NATSConfig
  streams :: "StreamConfig list"
  logLevel :: string
  statsInterval :: number

text \<open>
  \<open>loadCredentialFile\<close> never throws: an unset or empty path and an unreadable file both
  give \<open>undefined\<close> (the warning it prints is not part of the result).
\<close>

definition loadCredentialFile :: "filesystem \<Rightarrow> string option \<Rightarrow> string option" where
  "loadCredentialFile fs filePath =
     (if \<not> truthy filePath then None
      else (case readFileSync_utf8 fs (the filePath) of
              Inr text \<Rightarrow> Some (trim text)
            | Inl err \<Rightarrow> None))"

definition names_js :: "env \<Rightarrow> string list" where
  "names_js e = env_list e ''STREAM_NAMES'' [''pumpfun'', ''pumpswap'']"

definition subjects_js :: "env \<Rightarrow> string list" where
  "subjects_js e = env_list e ''STREAM_SUBJECTS'' [''parsedtx.pumpfun'', ''parsedtx.pumpswap'']"

definition streams_js :: "env \<Rightarrow> string list" where
  "streams_js e = env_list e ''JETSTREAM_NAMES'' [''PARSED_PUMPFUN'', ''PARSED_PUMPSWAP'']"

definition parseStreamConfig :: "env \<Rightarrow> error + StreamConfig list" where
  "parseStreamConfig e =
     (let names = names_js e;
          subjects = subjects_js e;
          strms = streams_js e
      in if length names \<noteq> length subjects \<or> length names \<noteq> length strms
         then Inl mismatch_error
         else Inr (map (\<lambda>(nm, index). \<lparr>name = trim nm,
                                        subject = trim (subjects ! index),
                                        stream = trim (strms ! index)\<rparr>)
                       (zip names [0 ..< length names])))"

definition settings :: "env \<Rightarrow> filesystem \<Rightarrow> error + Settings" where
  "settings e fs =
     (let n = \<lparr>host = or_default (e ''NATS_HOST'') ''localhost'',
               port = parseInt (or_default (e ''NATS_PORT'') ''4222''),
               conn_name = or_default (e ''NATS_NAME'') ''solana-stream-consumer'',
               jwt = js_or (e ''NATS_JWT'') (loadCredentialFile fs (e ''NATS_JWT_FILE'')),
               nkey = js_or (e ''NATS_NKEY'') (loadCredentialFile fs (e ''NATS_NKEY_FILE'')),
               jwtFile = e ''NATS_JWT_FILE'',
               nkeyFile = e ''NATS_NKEY_FILE'',
               tls = Some \<lparr>cert = e ''NATS_TLS_CERT'', key = e ''NATS_TLS_KEY'',
                           ca = e ''NATS_TLS_CA''\<rparr>\<rparr>
      in case parseStreamConfig e of
           Inl err \<Rightarrow> Inl err
         | Inr ss \<Rightarrow>
             Inr \<lparr>nats = n, streams = ss,
                  logLevel = or_default (e ''LOG_LEVEL'') ''info'',
                  statsInterval = parseInt (or_default (e ''STATS_INTERVAL'') ''5000'')\<rparr>)"

section \<open>The consumer and the world around it\<close>

text \<open>
  \<open>String(n)\<close> as a template literal prints a number.
\<close>

fun String_nat :: "nat \<Rightarrow> string" where
  "String_nat n =
     (if n < 10 then [''0123456789'' ! n]
      else String_nat (n div 10) @ [''0123456789'' ! (n mod 10)])"

declare String_nat.simps [simp del]

definition String_number :: "number \<Rightarrow> string" where
  "String_number x =
     (case x of
        NaN \<Rightarrow> ''NaN''
      | Num i \<Rightarrow> (if i < 0 then ''-'' @ String_nat (nat (- i)) else String_nat (nat i)))"

datatype level = Info | Warn | Err

text \<open>The authenticators of the nats client; each keeps the material it was built from.\<close>

datatype authenticator =
    credsAuthenticator "char list"
  | jwtAuthenticator string
  | nkeyAuthenticator "char list"

record TLSOptions =
  tls_cert :: "string option"
  tls_key :: "string option"
  tls_ca :: "string option"

record ConnectionOptions =
  servers :: string
  opt_name :: string
  opt_authenticator :: "authenticator option"
  opt_tls :: "TLSOptions option"

text \<open>
  The connection object belongs to the nats client. The consumer only holds it and drains
  it; all the model keeps of it is whether it has been closed.
\<close>

datatype NatsConnection = NatsConnection (closed: bool)

text \<open>A message delivered on a subscription: its payload, and a number that identifies it.\<close>

record Msg =
  msg_seq :: nat
  msg_data :: "char list"

text \<open>
  The operations of the runtime and of the nats client, whose code is outside the
  repository: each is a parameter. \<open>'t\<close> is the type of the texts the codec decodes a
  payload to, and \<open>'j\<close> the type of the values \<open>JSON.parse\<close> returns.
\<close>

record ('t, 'j) lib =
  nats_connect :: "ConnectionOptions \<Rightarrow> error + NatsConnection"
  nats_subscribe :: "NatsConnection \<Rightarrow> string \<Rightarrow> error option"
  jetstream_subscribe :: "NatsConnection \<Rightarrow> string \<Rightarrow> string \<Rightarrow> error option"
  nats_drain :: "NatsConnection \<Rightarrow> error + NatsConnection"
  StringCodec_decode :: "char list \<Rightarrow> error + 't"
  JSON_parse :: "'t \<Rightarrow> error + 'j"
  JSON_stringify :: "'j \<Rightarrow> error + 't"

text \<open>What \<open>console.log\<close> prints: a line built by the consumer, or a text of the runtime.\<close>

datatype 't printed = Line string | Text 't

record Parser =
  parser_messageCount :: nat

text \<open>
  The fields of \<open>NATSConsumer\<close> (the JetStream handle \<open>js\<close> is derived from \<open>nc\<close> and is left
  out), followed by what the object does to the world: the lines sent to the loggers and
  to the console, the live interval timers, the options of every call of the client's
  \<open>connect\<close>, the subscriptions opened, the messages acknowledged, and the calls of
  \<open>Parser.processTransaction\<close> with their arguments. The counters are natural numbers
  (a JavaScript number counts exactly up to \<open>2 ^ 53\<close>); the loggers and the console are
  taken not to throw.
\<close>

record ('t, 'j) NATSConsumer =
  nc :: "NatsConnection option"
  messageCount :: nat
  running :: bool
  parser :: Parser
  statsIntervalTimer :: "nat option"
  logs :: "(level \<times> string) list"
  console :: "'t printed list"
  timers :: "nat list"
  timerSeq :: nat
  connectCalls :: "ConnectionOptions list"
  subscriptions :: "string list"
  acked :: "Msg list"
  sinkCalls :: "(string \<times> 'j) list"

text \<open>\<open>new NATSConsumer()\<close>; the constructor of \<open>Parser\<close> logs one line.\<close>

definition new_NATSConsumer :: "('t, 'j) NATSConsumer" where
  "new_NATSConsumer =
     \<lparr>nc = None, messageCount = 0, running = False,
      parser = \<lparr>parser_messageCount = 0\<rparr>, statsIntervalTimer = None,
      logs = [(Info, ''Parser initialized'')], console = [], timers = [], timerSeq = 0,
      connectCalls = [], subscriptions = [], acked = [], sinkCalls = []\<rparr>"

definition logger_info :: "string \<Rightarrow> ('t, 'j) NATSConsumer \<Rightarrow> ('t, 'j) NATSConsumer" where
  "logger_info m c = c\<lparr>logs := logs c @ [(Info, m)]\<rparr>"

definition logger_warn :: "string \<Rightarrow> ('t, 'j) NATSConsumer \<Rightarrow> ('t, 'j) NATSConsumer" where
  "logger_warn m c = c\<lparr>logs := logs c @ [(Warn, m)]\<rparr>"

definition logger_error :: "string \<Rightarrow> ('t, 'j) NATSConsumer \<Rightarrow> ('t, 'j) NATSConsumer" where
  "logger_error m c = c\<lparr>logs := logs c @ [(Err, m)]\<rparr>"

definition console_log :: "'t printed \<Rightarrow> ('t, 'j) NATSConsumer \<Rightarrow> ('t, 'j) NATSConsumer" where
  "console_log m c = c\<lparr>console := console c @ [m]\<rparr>"

section \<open>parser.ts\<close>

text \<open>
  \<open>processTransaction\<close>: the counter goes up first, inside the \<open>try\<close>; a failure of the
  printing is caught and logged, so the method always completes normally.
\<close>

definition processTransaction ::
  "('t, 'j) lib \<Rightarrow> string \<Rightarrow> 'j \<Rightarrow> ('t, 'j) NATSConsumer \<Rightarrow> error option \<times> ('t, 'j) NATSConsumer" where
  "processTransaction L streamName d c =
     (let c0 = c\<lparr>sinkCalls := sinkCalls c @ [(streamName, d)]\<rparr>;
          c1 = c0\<lparr>parser := (parser c0)\<lparr>parser_messageCount :=
                                 parser_messageCount (parser c0) + 1\<rparr>\<rparr>;
          c2 = console_log (Line ([CHR 0x0A] @ ''['' @ streamName @ ''] Message #'' @
                                  String_nat (parser_messageCount (parser c1)) @ '':'')) c1
      in case JSON_stringify L d of
           Inl err \<Rightarrow>
             (None, logger_error (''Error processing message from '' @ streamName @ '':'') c2)
         | Inr text \<Rightarrow> (None, console_log (Text text) c2))"

definition Parser_stop :: "('t, 'j) NATSConsumer \<Rightarrow> ('t, 'j) NATSConsumer" where
  "Parser_stop c = logger_info ''Parser stopping'' c"

section \<open>The consumer: message handling\<close>

definition handleMessage ::
  "('t, 'j) lib \<Rightarrow> string \<Rightarrow> char list \<Rightarrow> ('t, 'j) NATSConsumer \<Rightarrow> error option \<times> ('t, 'j) NATSConsumer" where
  "handleMessage L streamName bytes c =
     (let c1 = c\<lparr>messageCount := messageCount c + 1\<rparr>
      in case StringCodec_decode L bytes of
           Inl err \<Rightarrow> (None, logger_error ''Failed to parse message as JSON:'' c1)
         | Inr text \<Rightarrow>
             (case JSON_parse L text of
                Inl err \<Rightarrow> (None, logger_error ''Failed to parse message as JSON:'' c1)
              | Inr json \<Rightarrow>
                  (case processTransaction L streamName json c1 of
                     (Some err, c2) \<Rightarrow>
                        (None, logger_error ''Failed to parse message as JSON:'' c2)
                   | (None, c2) \<Rightarrow> (None, c2))))"

text \<open>The handler run on a sequence of payloads, one after the other.\<close>

fun handleMessages ::
  "('t, 'j) lib \<Rightarrow> string \<Rightarrow> char list list \<Rightarrow> ('t, 'j) NATSConsumer \<Rightarrow> ('t, 'j) NATSConsumer" where
  "handleMessages L streamName [] c = c"
| "handleMessages L streamName (b # bs) c =
     handleMessages L streamName bs (snd (handleMessage L streamName b c))"

text \<open>
  Whether \<open>JSON.parse(StringCodec().decode(bytes))\<close> returns a value, and the value.
\<close>

definition decoded :: "('t, 'j) lib \<Rightarrow> char list \<Rightarrow> 'j option" where
  "decoded L bytes =
     (case StringCodec_decode L bytes of
        Inl err \<Rightarrow> None
      | Inr text \<Rightarrow> (case JSON_parse L text of Inl err \<Rightarrow> None | Inr json \<Rightarrow> Some json))"

section \<open>The consumer: connecting\<close>

text \<open>
  The text the consumer builds from an inline JWT and an inline key:
  the template literal of \<open>connect\<close>, with \<open>\n\<close> as the character 10.
\<close>

definition creds_text :: "string \<Rightarrow> string \<Rightarrow> string" where
  "creds_text j k =
     ''-----BEGIN NATS USER JWT-----'' @ [CHR 0x0A] @ j @ [CHR 0x0A] @
     ''------END NATS USER JWT------'' @ [CHR 0x0A, CHR 0x0A] @
     ''-----BEGIN USER NKEY SEED-----'' @ [CHR 0x0A] @ k @ [CHR 0x0A] @
     ''------END USER NKEY SEED-----''"

text \<open>
  JetStream variant, the part of \<open>connect\<close> under "Configure authentication": five
  branches, the first whose test is truthy wins. Reading the credentials file may throw;
  nothing catches it there.
\<close>

definition connect_auth ::
  "filesystem \<Rightarrow> NATSConfig \<Rightarrow> ConnectionOptions \<Rightarrow> ('t, 'j) NATSConsumer
     \<Rightarrow> (error + ConnectionOptions) \<times> ('t, 'j) NATSConsumer" where
  "connect_auth fs n opts c =
     (if truthy (jwtFile n) then
        (let c1 = logger_info ''Using credentials file authentication'' c
         in case readFileSync fs (the (jwtFile n)) of
              Inl err \<Rightarrow> (Inl err, c1)
            | Inr bytes \<Rightarrow>
                (Inr (opts\<lparr>opt_authenticator := Some (credsAuthenticator bytes)\<rparr>), c1))
      else if truthy (jwt n) \<and> truthy (nkey n) then
        (let c1 = logger_info ''Using inline JWT + NKey authentication'' c;
             creds = creds_text (the (jwt n)) (the (nkey n))
         in (Inr (opts\<lparr>opt_authenticator :=
                         Some (credsAuthenticator (TextEncoder_encode creds))\<rparr>), c1))
      else if truthy (jwt n) then
        (let c1 = logger_info ''Using JWT authentication'' c
         in (Inr (opts\<lparr>opt_authenticator := Some (jwtAuthenticator (the (jwt n)))\<rparr>), c1))
      else if truthy (nkey n) then
        (let c1 = logger_info ''Using NKey authentication'' c
         in (Inr (opts\<lparr>opt_authenticator :=
                         Some (nkeyAuthenticator (TextEncoder_encode (the (nkey n))))\<rparr>), c1))
      else
        (Inr opts,
         logger_warn ''No authentication configured - using anonymous connection'' c))"

text \<open>\<open>p ? readFileSync(p, 'utf-8') : undefined\<close>\<close>

definition read_optional :: "filesystem \<Rightarrow> string option \<Rightarrow> error + string option" where
  "read_optional fs p =
     (if truthy p then
        (case readFileSync_utf8 fs (the p) of Inl err \<Rightarrow> Inl err | Inr text \<Rightarrow> Inr (Some text))
      else Inr None)"

text \<open>The part of \<open>connect\<close> under "Configure TLS if provided".\<close>

definition connect_tls ::
  "filesystem \<Rightarrow> NATSConfig \<Rightarrow> ConnectionOptions \<Rightarrow> ('t, 'j) NATSConsumer
     \<Rightarrow> (error + ConnectionOptions) \<times> ('t, 'j) NATSConsumer" where
  "connect_tls fs n opts c =
     (case tls n of
        None \<Rightarrow> (Inr opts, c)
      | Some t \<Rightarrow>
          (if truthy (cert t) \<or> truthy (key t) \<or> truthy (ca t) then
             (let c1 = logger_info ''Configuring TLS connection'' c
              in case read_optional fs (cert t) of
                   Inl err \<Rightarrow> (Inl err, c1)
                 | Inr ce \<Rightarrow>
                     (case read_optional fs (key t) of
                        Inl err \<Rightarrow> (Inl err, c1)
                      | Inr ke \<Rightarrow>
                          (case read_optional fs (ca t) of
                             Inl err \<Rightarrow> (Inl err, c1)
                           | Inr cae \<Rightarrow>
                               (Inr (opts\<lparr>opt_tls := Some \<lparr>tls_cert = ce, tls_key = ke,
                                                             tls_ca = cae\<rparr>\<rparr>), c1))))
           else (Inr opts, c)))"

text \<open>The \<open>try\<close> block at the end of \<open>connect\<close>: the one call of the client's \<open>connect\<close>.\<close>

definition connect_call ::
  "('t, 'j) lib \<Rightarrow> ConnectionOptions \<Rightarrow> ('t, 'j) NATSConsumer \<Rightarrow> error option \<times> ('t, 'j) NATSConsumer" where
  "connect_call L opts c =
     (let c1 = c\<lparr>connectCalls := connectCalls c @ [opts]\<rparr>
      in case nats_connect L opts of
           Inl err \<Rightarrow> (Some err, logger_error ''Failed to connect to NATS:'' c1)
         | Inr conn \<Rightarrow> (None, logger_info ''Connected to NATS'' (c1\<lparr>nc := Some conn\<rparr>)))"

definition connect ::
  "('t, 'j) lib \<Rightarrow> filesystem \<Rightarrow> Settings \<Rightarrow> ('t, 'j) NATSConsumer \<Rightarrow> error option \<times> ('t, 'j) NATSConsumer" where
  "connect L fs s c =
     (let n = nats s;
          url = ''nats://'' @ host n @ '':'' @ String_number (port n);
          opts = \<lparr>servers = url, opt_name = conn_name n,
                  opt_authenticator = None, opt_tls = None\<rparr>
      in case connect_auth fs n opts c of
           (Inl err, c1) \<Rightarrow> (Some err, c1)
         | (Inr opts1, c1) \<Rightarrow>
             (case connect_tls fs n opts1 c1 of
                (Inl err, c2) \<Rightarrow> (Some err, c2)
              | (Inr opts2, c2) \<Rightarrow> connect_call L opts2 c2))"

text \<open>
  Core variant, "Configure authentication": a credentials file, or an inline JWT with its
  seed, or else an error that is logged and thrown.
\<close>

definition not_configured :: error where
  "not_configured =
     Error (''NATS authentication not configured. '' @
            ''Provide NATS_CREDS_FILE/NATS_JWT_FILE or NATS_USER_JWT and NATS_USER_SEED.'')"

definition error_message :: "error \<Rightarrow> string" where
  "error_message e = (case e of Error m \<Rightarrow> m)"

definition connect_auth_core ::
  "filesystem \<Rightarrow> NATSConfig_core \<Rightarrow> ConnectionOptions \<Rightarrow> ('t, 'j) NATSConsumer
     \<Rightarrow> (error + ConnectionOptions) \<times> ('t, 'j) NATSConsumer" where
  "connect_auth_core fs n opts c =
     (if truthy (credsFile n) then
        (let c1 = logger_info ''Using credentials file authentication'' c
         in case readFileSync fs (the (credsFile n)) of
              Inl err \<Rightarrow> (Inl err, c1)
            | Inr bytes \<Rightarrow>
                (Inr (opts\<lparr>opt_authenticator := Some (credsAuthenticator bytes)\<rparr>), c1))
      else if truthy (userJwt n) \<and> truthy (userSeed n) then
        (let c1 = logger_info ''Using inline JWT + NKey seed authentication'' c;
             creds = creds_text (the (userJwt n)) (the (userSeed n))
         in (Inr (opts\<lparr>opt_authenticator :=
                         Some (credsAuthenticator (TextEncoder_encode creds))\<rparr>), c1))
      else
        (Inl not_configured, logger_error (error_message not_configured) c))"

definition connect_core ::
  "('t, 'j) lib \<Rightarrow> filesystem \<Rightarrow> Settings_core \<Rightarrow> ('t, 'j) NATSConsumer
     \<Rightarrow> error option \<times> ('t, 'j) NATSConsumer" where
  "connect_core L fs s c =
     (let n = nats_c s;
          url = (if truthy (serverUrl_c n) then the (serverUrl_c n)
                 else ''nats://'' @ host_c n @ '':'' @ String_number (port_c n));
          opts = \<lparr>servers = url, opt_name = conn_name_c n,
                  opt_authenticator = None, opt_tls = None\<rparr>
      in case connect_auth_core fs n opts c of
           (Inl err, c1) \<Rightarrow> (Some err, c1)
         | (Inr opts1, c1) \<Rightarrow> connect_call L opts1 c1)"

section \<open>The consumer: subscribing and receiving\<close>

text \<open>
  \<open>subscribe\<close> opens the subscription and starts the receive loop, which then runs on its
  own as messages arrive. Before \<open>connect\<close> has run there is no client to call, and the
  call throws a \<open>TypeError\<close>, caught and thrown again like any other failure.
\<close>

definition no_client :: error where
  "no_client = Error ''Cannot read properties of undefined (reading subscribe)''"

definition subscribe ::
  "('t, 'j) lib \<Rightarrow> StreamConfig \<Rightarrow> ('t, 'j) NATSConsumer \<Rightarrow> error option \<times> ('t, 'j) NATSConsumer" where
  "subscribe L sc c =
     (let c1 = logger_info (''Subscribing to '' @ subject sc @ '' on stream '' @ stream sc) c;
          r = (case nc c1 of
                 None \<Rightarrow> Some no_client
               | Some conn \<Rightarrow> jetstream_subscribe L conn (subject sc) (stream sc))
      in case r of
           Some err \<Rightarrow> (Some err, logger_error (''Failed to subscribe to '' @ name sc @ '':'') c1)
         | None \<Rightarrow>
             (None, logger_info (''Successfully subscribed to '' @ name sc)
                      (c1\<lparr>subscriptions := subscriptions c1 @ [name sc]\<rparr>)))"

definition subscribe_core ::
  "('t, 'j) lib \<Rightarrow> StreamConfig_core \<Rightarrow> ('t, 'j) NATSConsumer \<Rightarrow> error option \<times> ('t, 'j) NATSConsumer" where
  "subscribe_core L sc c =
     (let c1 = logger_info (''Subscribing to '' @ subject_c sc) c;
          r = (case nc c1 of
                 None \<Rightarrow> Some no_client
               | Some conn \<Rightarrow> nats_subscribe L conn (subject_c sc))
      in case r of
           Some err \<Rightarrow>
             (Some err, logger_error (''Failed to subscribe to '' @ name_c sc @ '':'') c1)
         | None \<Rightarrow>
             (None, logger_info (''Successfully subscribed to '' @ name_c sc)
                      (c1\<lparr>subscriptions := subscriptions c1 @ [name_c sc]\<rparr>)))"

text \<open>
  One turn of the JetStream receive loop after the test of \<open>running\<close>: the \<open>try\<close> with the
  handler and \<open>msg.ack()\<close>, and the \<open>catch\<close> that logs and acknowledges all the same. The
  handler is a parameter \<open>h\<close>, so that the \<open>catch\<close> can be studied with a handler that
  throws; the consumer's own loop runs \<open>handleMessage\<close>. The acknowledgement itself is
  taken not to throw.
\<close>

definition deliver_with ::
  "(string \<Rightarrow> char list \<Rightarrow> ('t, 'j) NATSConsumer \<Rightarrow> error option \<times> ('t, 'j) NATSConsumer)
     \<Rightarrow> string \<Rightarrow> Msg \<Rightarrow> ('t, 'j) NATSConsumer \<Rightarrow> ('t, 'j) NATSConsumer" where
  "deliver_with h nm m c =
     (case h nm (msg_data m) c of
        (None, c1) \<Rightarrow> c1\<lparr>acked := acked c1 @ [m]\<rparr>
      | (Some err, c1) \<Rightarrow>
          (let c2 = logger_error (''Error handling message from '' @ nm @ '':'') c1
           in c2\<lparr>acked := acked c2 @ [m]\<rparr>))"

fun receive_loop_with ::
  "(string \<Rightarrow> char list \<Rightarrow> ('t, 'j) NATSConsumer \<Rightarrow> error option \<times> ('t, 'j) NATSConsumer)
     \<Rightarrow> string \<Rightarrow> Msg list \<Rightarrow> ('t, 'j) NATSConsumer \<Rightarrow> ('t, 'j) NATSConsumer" where
  "receive_loop_with h nm [] c = c"
| "receive_loop_with h nm (m # ms) c =
     (if \<not> running c then c
      else receive_loop_with h nm ms (deliver_with h nm m c))"

definition receive_loop ::
  "('t, 'j) lib \<Rightarrow> string \<Rightarrow> Msg list \<Rightarrow> ('t, 'j) NATSConsumer \<Rightarrow> ('t, 'j) NATSConsumer" where
  "receive_loop L = receive_loop_with (handleMessage L)"

text \<open>The receive loop of the core variant: no acknowledgement.\<close>

definition deliver_core_with ::
  "(string \<Rightarrow> char list \<Rightarrow> ('t, 'j) NATSConsumer \<Rightarrow> error option \<times> ('t, 'j) NATSConsumer)
     \<Rightarrow> string \<Rightarrow> Msg \<Rightarrow> ('t, 'j) NATSConsumer \<Rightarrow> ('t, 'j) NATSConsumer" where
  "deliver_core_with h nm m c =
     (case h nm (msg_data m) c of
        (None, c1) \<Rightarrow> c1
      | (Some err, c1) \<Rightarrow> logger_error (''Error handling message from '' @ nm @ '':'') c1)"

fun receive_loop_core_with ::
  "(string \<Rightarrow> char list \<Rightarrow> ('t, 'j) NATSConsumer \<Rightarrow> error option \<times> ('t, 'j) NATSConsumer)
     \<Rightarrow> string \<Rightarrow> Msg list \<Rightarrow> ('t, 'j) NATSConsumer \<Rightarrow> ('t, 'j) NATSConsumer" where
  "receive_loop_core_with h nm [] c = c"
| "receive_loop_core_with h nm (m # ms) c =
     (if \<not> running c then c
      else receive_loop_core_with h nm ms (deliver_core_with h nm m c))"

definition receive_loop_core ::
  "('t, 'j) lib \<Rightarrow> string \<Rightarrow> Msg list \<Rightarrow> ('t, 'j) NATSConsumer \<Rightarrow> ('t, 'j) NATSConsumer" where
  "receive_loop_core L = receive_loop_core_with (handleMessage L)"

section \<open>The consumer: start and stop\<close>

text \<open>\<open>reportStats\<close> starts the interval timer and keeps its handle.\<close>

definition reportStats :: "('t, 'j) NATSConsumer \<Rightarrow> ('t, 'j) NATSConsumer" where
  "reportStats c =
     (let t = timerSeq c
      in c\<lparr>statsIntervalTimer := Some t, timers := timers c @ [t], timerSeq := t + 1\<rparr>)"

definition clearInterval :: "nat \<Rightarrow> ('t, 'j) NATSConsumer \<Rightarrow> ('t, 'j) NATSConsumer" where
  "clearInterval t c = c\<lparr>timers := removeAll t (timers c)\<rparr>"

fun subscribe_all ::
  "('t, 'j) lib \<Rightarrow> StreamConfig list \<Rightarrow> ('t, 'j) NATSConsumer \<Rightarrow> error option \<times> ('t, 'j) NATSConsumer" where
  "subscribe_all L [] c = (None, c)"
| "subscribe_all L (sc # scs) c =
     (case subscribe L sc c of
        (Some err, c1) \<Rightarrow> (Some err, c1)
      | (None, c1) \<Rightarrow> subscribe_all L scs c1)"

fun subscribe_all_core ::
  "('t, 'j) lib \<Rightarrow> StreamConfig_core list \<Rightarrow> ('t, 'j) NATSConsumer \<Rightarrow> error option \<times> ('t, 'j) NATSConsumer" where
  "subscribe_all_core L [] c = (None, c)"
| "subscribe_all_core L (sc # scs) c =
     (case subscribe_core L sc c of
        (Some err, c1) \<Rightarrow> (Some err, c1)
      | (None, c1) \<Rightarrow> subscribe_all_core L scs c1)"

definition start ::
  "('t, 'j) lib \<Rightarrow> filesystem \<Rightarrow> Settings \<Rightarrow> ('t, 'j) NATSConsumer \<Rightarrow> error option \<times> ('t, 'j) NATSConsumer" where
  "start L fs s c =
     (let c1 = logger_info ''Starting consumer'' c
      in case connect L fs s c1 of
           (Some err, c2) \<Rightarrow> (Some err, c2)
         | (None, c2) \<Rightarrow>
             (case subscribe_all L (streams s) (c2\<lparr>running := True\<rparr>) of
                (Some err, c3) \<Rightarrow> (Some err, c3)
              | (None, c3) \<Rightarrow> (None, reportStats c3)))"

definition start_core ::
  "('t, 'j) lib \<Rightarrow> filesystem \<Rightarrow> Settings_core \<Rightarrow> ('t, 'j) NATSConsumer
     \<Rightarrow> error option \<times> ('t, 'j) NATSConsumer" where
  "start_core L fs s c =
     (let c1 = logger_info ''Starting consumer'' c
      in case connect_core L fs s c1 of
           (Some err, c2) \<Rightarrow> (Some err, c2)
         | (None, c2) \<Rightarrow>
             (case subscribe_all_core L (streams_c s) (c2\<lparr>running := True\<rparr>) of
                (Some err, c3) \<Rightarrow> (Some err, c3)
              | (None, c3) \<Rightarrow> (None, reportStats c3)))"

text \<open>
  \<open>stop\<close> is the same in both variants. It tests nothing but the two fields it uses: it
  clears the timer whenever the handle is set and drains the connection whenever there
  is one, also when an earlier \<open>stop\<close> has done so already. A rejected drain is thrown on.
\<close>

definition stop :: "('t, 'j) lib \<Rightarrow> ('t, 'j) NATSConsumer \<Rightarrow> error option \<times> ('t, 'j) NATSConsumer" where
  "stop L c =
     (let c1 = logger_info ''Stopping consumer'' c;
          c2 = c1\<lparr>running := False\<rparr>;
          c3 = (case statsIntervalTimer c2 of None \<Rightarrow> c2 | Some t \<Rightarrow> clearInterval t c2);
          c4 = Parser_stop c3
      in case nc c4 of
           None \<Rightarrow> (None, logger_info ''Consumer stopped'' c4)
         | Some conn \<Rightarrow>
             (case nats_drain L conn of
                Inl err \<Rightarrow> (Some err, c4)
              | Inr conn' \<Rightarrow> (None, logger_info ''Consumer stopped'' (c4\<lparr>nc := Some conn'\<rparr>))))"

text \<open>
  The \<open>drain\<close> of the nats client, which is not part of the repository: it closes an
  open connection, and rejects with \<open>CONNECTION_CLOSED\<close> when the connection is closed
  already.
\<close>

definition drain_rejecting_closed :: "NatsConnection \<Rightarrow> error + NatsConnection" where
  "drain_rejecting_closed conn =
     (if closed conn then Inl (Error ''CONNECTION_CLOSED'') else Inr (NatsConnection True))"

text \<open>A client whose \<open>drain\<close> accepts a closed connection and leaves it closed.\<close>

definition drain_lenient :: "NatsConnection \<Rightarrow> error + NatsConnection" where
  "drain_lenient conn = Inr (NatsConnection True)"

text \<open>The part of the state that a shutdown is about: everything but the log lines.\<close>

definition without_logs :: "('t, 'j) NATSConsumer \<Rightarrow> ('t, 'j) NATSConsumer" where
  "without_logs c = c\<lparr>logs := []\<rparr>"

text \<open>\<open>x > 0\<close> on a number; a comparison with \<open>NaN\<close> is false.\<close>

definition positive :: "number \<Rightarrow> bool" where
  "positive x = (case x of Num i \<Rightarrow> 0 < i | NaN \<Rightarrow> False)"

section \<open>The codec of the nats client\<close>

text \<open>
  \<open>StringCodec().decode\<close> of the nats client, which is not part of the repository, is the
  \<open>decode\<close> of a \<open>TextDecoder\<close> built with no option: UTF-8, not fatal. It never throws; a
  byte sequence that is not well-formed is replaced by the character U+FFFD. The decoder
  below follows the UTF-8 decoder of the Encoding standard byte by byte. It returns the
  code points, and whether any replacement was made for a malformed sequence.
\<close>

definition emit :: "nat \<Rightarrow> nat list \<times> bool \<Rightarrow> nat list \<times> bool" where
  "emit u r = (u # fst r, snd r)"

definition replaced :: "nat list \<times> bool \<Rightarrow> nat list \<times> bool" where
  "replaced r = (0xFFFD # fst r, True)"

fun utf8_decode :: "nat \<Rightarrow> nat \<Rightarrow> nat \<Rightarrow> nat \<Rightarrow> nat \<Rightarrow> nat list \<Rightarrow> nat list \<times> bool" where
  "utf8_decode cp seen needed lower upper [] =
     (if needed \<noteq> 0 then ([0xFFFD], True) else ([], False))"
| "utf8_decode cp seen needed lower upper (b # bs) =
     (if needed = 0 then
        (if b \<le> 0x7F then emit b (utf8_decode 0 0 0 0x80 0xBF bs)
         else if 0xC2 \<le> b \<and> b \<le> 0xDF then utf8_decode (b mod 32) 0 1 0x80 0xBF bs
         else if 0xE0 \<le> b \<and> b \<le> 0xEF then
           utf8_decode (b mod 16) 0 2 (if b = 0xE0 then 0xA0 else 0x80)
                       (if b = 0xED then 0x9F else 0xBF) bs
         else if 0xF0 \<le> b \<and> b \<le> 0xF4 then
           utf8_decode (b mod 8) 0 3 (if b = 0xF0 then 0x90 else 0x80)
                       (if b = 0xF4 then 0x8F else 0xBF) bs
         else replaced (utf8_decode 0 0 0 0x80 0xBF bs))
      else if b < lower \<or> upper < b then
        replaced (utf8_decode 0 0 0 0x80 0xBF (b # bs))
      else if seen + 1 \<noteq> needed then
        utf8_decode (cp * 64 + b mod 64) (seen + 1) needed 0x80 0xBF bs
      else emit (cp * 64 + b mod 64) (utf8_decode 0 0 0 0x80 0xBF bs))"

declare utf8_decode.simps [simp del]

definition valid_utf8 :: "char list \<Rightarrow> bool" where
  "valid_utf8 bytes = (\<not> snd (utf8_decode 0 0 0 0x80 0xBF (map of_char bytes)))"

text \<open>A code point as UTF-16 code units.\<close>

definition utf16_units :: "nat \<Rightarrow> nat list" where
  "utf16_units cp =
     (if cp < 0x10000 then [cp]
      else [0xD800 + (cp - 0x10000) div 0x400, 0xDC00 + (cp - 0x10000) mod 0x400])"

text \<open>
  The decoded string, as the list of its code units; a byte order mark at the start is
  dropped.
\<close>

definition TextDecoder_decode :: "char list \<Rightarrow> nat list" where
  "TextDecoder_decode bytes =
     (let cps = fst (utf8_decode 0 0 0 0x80 0xBF (map of_char bytes));
          cps1 = (case cps of [] \<Rightarrow> [] | c # r \<Rightarrow> if c = 0xFEFF then r else cps)
      in concat (map utf16_units cps1))"

text \<open>
  \<open>JSON.parse\<close> and \<open>JSON.stringify\<close> on the simplest JSON texts: a string literal with no
  escape in it, that is a quotation mark, code units that are neither a quotation mark
  nor a backslash nor below 32, and a quotation mark. On these the two functions below
  return what the runtime returns; on every other text and value they give an error,
  where the runtime would go on to the rest of the JSON grammar.
\<close>

definition plain_unit :: "nat \<Rightarrow> bool" where
  "plain_unit u = (32 \<le> u \<and> u \<noteq> 0x22 \<and> u \<noteq> 0x5C)"

definition parse_plain_string :: "nat list \<Rightarrow> error + nat list" where
  "parse_plain_string text =
     (if 2 \<le> length text \<and> hd text = 0x22 \<and> last text = 0x22 \<and>
         list_all plain_unit (butlast (tl text))
      then Inr (butlast (tl text))
      else Inl (Error ''Unexpected token''))"

definition stringify_plain_string :: "nat list \<Rightarrow> error + nat list" where
  "stringify_plain_string v =
     (if list_all (\<lambda>u. plain_unit u \<and> (u < 0xD800 \<or> 0xDFFF < u)) v
      then Inr ([0x22] @ v @ [0x22])
      else Inl (Error ''not a plain string''))"

section \<open>Concrete inputs\<close>

text \<open>
  The options \<open>connect\<close> starts from under the default settings, a consumer just built,
  and the two default configurations with no authentication material.
\<close>

definition default_opts :: ConnectionOptions where
  "default_opts =
     \<lparr>servers = ''nats://localhost:4222'', opt_name = ''solana-stream-consumer'',
      opt_authenticator = None, opt_tls = None\<rparr>"

definition fresh :: "(string, nat) NATSConsumer" where
  "fresh = new_NATSConsumer"

definition bare_core :: NATSConfig_core where
  "bare_core =
     \<lparr>serverUrl_c = None, host_c = ''localhost'', port_c = Num 4222,
      conn_name_c = ''solana-stream-consumer'',
      credsFile = None, userJwt = None, userSeed = None\<rparr>"

definition bare :: NATSConfig where
  "bare =
     \<lparr>host = ''localhost'', port = Num 4222, conn_name = ''solana-stream-consumer'',
      jwt = None, nkey = None, jwtFile = None, nkeyFile = None,
      tls = Some \<lparr>cert = None, key = None, ca = None\<rparr>\<rparr>"

text \<open>
  A runtime for the examples: the codec never fails, \<open>JSON.parse\<close> accepts the texts made
  of decimal digits only and returns the number they denote, printing never fails, the
  client connects and subscribes, and \<open>drain\<close> is a parameter.
\<close>

definition example_lib :: "(NatsConnection \<Rightarrow> error + NatsConnection) \<Rightarrow> (string, nat) lib" where
  "example_lib d =
     \<lparr>nats_connect = (\<lambda>opts. Inr (NatsConnection False)),
      nats_subscribe = (\<lambda>conn subj. None),
      jetstream_subscribe = (\<lambda>conn subj strm. None),
      nats_drain = d,
      StringCodec_decode = (\<lambda>bytes. Inr bytes),
      JSON_parse = (\<lambda>text. if text \<noteq> [] \<and> list_all (\<lambda>ch. digit_of 10 ch \<noteq> None) text
                             then Inr (foldl (\<lambda>a ch. a * 10 + the (digit_of 10 ch)) 0 text)
                             else Inl (Error ''Unexpected token'')),
      JSON_stringify = (\<lambda>v. Inr (String_nat v))\<rparr>"

text \<open>
  A runtime with the codec of the nats client, for payloads that are JSON string
  literals.
\<close>

definition codec_lib :: "(nat list, nat list) lib" where
  "codec_lib =
     \<lparr>nats_connect = (\<lambda>opts. Inr (NatsConnection False)),
      nats_subscribe = (\<lambda>conn subj. None),
      jetstream_subscribe = (\<lambda>conn subj strm. None),
      nats_drain = drain_rejecting_closed,
      StringCodec_decode = (\<lambda>bytes. Inr (TextDecoder_decode bytes)),
      JSON_parse = parse_plain_string,
      JSON_stringify = stringify_plain_string\<rparr>"

text \<open>A handler that always throws.\<close>

definition throwing_handler ::
  "string \<Rightarrow> char list \<Rightarrow> (string, nat) NATSConsumer \<Rightarrow> error option \<times> (string, nat) NATSConsumer" where
  "throwing_handler nm bytes c = (Some (Error ''boom''), c)"

text \<open>
  The JetStream consumer after \<open>start\<close> under the default settings (no variable set, no
  file), with a client whose \<open>drain\<close> is \<open>d\<close>.
\<close>

definition started :: "(NatsConnection \<Rightarrow> error + NatsConnection) \<Rightarrow> (string, nat) NATSConsumer" where
  "started d =
     snd (start (example_lib d) Map.empty (projr (settings Map.empty Map.empty)) fresh)"

section \<open>Facts about the string helpers\<close>

lemma parseStreamConfig_core_mismatch:
  "length (names_core e) \<noteq> length (subjects_core e) \<Longrightarrow>
   parseStreamConfig_core e = Inl mismatch_error"
  by (simp add: parseStreamConfig_core_def)

lemma parseStreamConfig_mismatch:
  "\<not> (length (names_js e) = length (subjects_js e) \<and>
      length (subjects_js e) = length (streams_js e)) \<Longrightarrow>
   parseStreamConfig e = Inl mismatch_error"
  by (auto simp add: parseStreamConfig_def Let_def)

section \<open>Authentication\<close>

text \<open>
  C1 (as amended). With no credentials-file path, and an inline JWT \<open>J\<close> and an inline key
  \<open>K\<close> that are both non-empty, both variants of \<open>connect\<close> hand the client a credentials
  authenticator built from the UTF-8 bytes of the text
  \<open>-----BEGIN NATS USER JWT-----\nJ\n------END NATS USER JWT------\n\n-----BEGIN USER NKEY SEED-----\nK\n------END USER NKEY SEED-----\<close>.
\<close>

theorem C1_inline_blob:
  "J \<noteq> [] \<and> K \<noteq> [] \<longrightarrow>
   (\<not> truthy (credsFile n) \<and> userJwt n = Some J \<and> userSeed n = Some K \<longrightarrow>
      fst (connect_auth_core fs n opts c) =
        Inr (opts\<lparr>opt_authenticator := Some (credsAuthenticator (TextEncoder_encode
          (''-----BEGIN NATS USER JWT-----'' @ [CHR 0x0A] @ J @ [CHR 0x0A] @
           ''------END NATS USER JWT------'' @ [CHR 0x0A, CHR 0x0A] @
           ''-----BEGIN USER NKEY SEED-----'' @ [CHR 0x0A] @ K @ [CHR 0x0A] @
           ''------END USER NKEY SEED-----'')))\<rparr>)) \<and>
   (\<not> truthy (jwtFile m) \<and> jwt m = Some J \<and> nkey m = Some K \<longrightarrow>
      fst (connect_auth fs m opts c) =
        Inr (opts\<lparr>opt_authenticator := Some (credsAuthenticator (TextEncoder_encode
          (''-----BEGIN NATS USER JWT-----'' @ [CHR 0x0A] @ J @ [CHR 0x0A] @
           ''------END NATS USER JWT------'' @ [CHR 0x0A, CHR 0x0A] @
           ''-----BEGIN USER NKEY SEED-----'' @ [CHR 0x0A] @ K @ [CHR 0x0A] @
           ''------END USER NKEY SEED-----'')))\<rparr>))"
  by (simp add: connect_auth_core_def connect_auth_def creds_text_def Let_def)

text \<open>The theorem at \<open>J = "J"\<close> and \<open>K = "K"\<close>, where the bytes are those of the text itself.\<close>

theorem C1_inline_blob_witness:
  "''J'' \<noteq> [] \<and> ''K'' \<noteq> [] \<and>
   \<not> truthy (credsFile (bare_core\<lparr>userJwt := Some ''J'', userSeed := Some ''K''\<rparr>)) \<and>
   fst (connect_auth_core Map.empty (bare_core\<lparr>userJwt := Some ''J'', userSeed := Some ''K''\<rparr>)
          default_opts fresh) =
     Inr (default_opts\<lparr>opt_authenticator := Some (credsAuthenticator
             (''-----BEGIN NATS USER JWT-----'' @ [CHR 0x0A] @ ''J'' @ [CHR 0x0A] @
              ''------END NATS USER JWT------'' @ [CHR 0x0A, CHR 0x0A] @
              ''-----BEGIN USER NKEY SEED-----'' @ [CHR 0x0A] @ ''K'' @ [CHR 0x0A] @
              ''------END USER NKEY SEED-----''))\<rparr>) \<and>
   \<not> truthy (jwtFile (bare\<lparr>jwt := Some ''J'', nkey := Some ''K''\<rparr>)) \<and>
   fst (connect_auth Map.empty (bare\<lparr>jwt := Some ''J'', nkey := Some ''K''\<rparr>)
          default_opts fresh) =
     Inr (default_opts\<lparr>opt_authenticator := Some (credsAuthenticator
             (''-----BEGIN NATS USER JWT-----'' @ [CHR 0x0A] @ ''J'' @ [CHR 0x0A] @
              ''------END NATS USER JWT------'' @ [CHR 0x0A, CHR 0x0A] @
              ''-----BEGIN USER NKEY SEED-----'' @ [CHR 0x0A] @ ''K'' @ [CHR 0x0A] @
              ''------END USER NKEY SEED-----''))\<rparr>)"
  using C1_inline_blob [of "''J''" "''K''"
          "bare_core\<lparr>userJwt := Some ''J'', userSeed := Some ''K''\<rparr>"
          Map.empty default_opts fresh
          "bare\<lparr>jwt := Some ''J'', nkey := Some ''K''\<rparr>"]
  by (simp add: bare_core_def bare_def TextEncoder_encode_def utf8_unit_def)

text \<open>
  C1 as stated fails at the empty JWT: with \<open>NATS_USER_JWT\<close> set to the empty string and
  \<open>NATS_USER_SEED\<close> to \<open>K\<close>, the loader yields these two inline strings and no credentials
  file, and \<open>connect\<close> builds no blob: it throws the not-configured error.
\<close>

theorem C1_empty_jwt_counterexample:
  "credsFile (nats_c (projr (settings_core [''NATS_USER_JWT'' \<mapsto> '''', ''NATS_USER_SEED'' \<mapsto> ''K''])))
     = None \<and>
   userJwt (nats_c (projr (settings_core [''NATS_USER_JWT'' \<mapsto> '''', ''NATS_USER_SEED'' \<mapsto> ''K''])))
     = Some '''' \<and>
   userSeed (nats_c (projr (settings_core [''NATS_USER_JWT'' \<mapsto> '''', ''NATS_USER_SEED'' \<mapsto> ''K''])))
     = Some ''K'' \<and>
   fst (connect_auth_core Map.empty
          (nats_c (projr (settings_core [''NATS_USER_JWT'' \<mapsto> '''', ''NATS_USER_SEED'' \<mapsto> ''K''])))
          default_opts fresh) = Inl not_configured"
  by (simp add: settings_core_def parseStreamConfig_core_def names_core_def subjects_core_def
        env_list_def js_or_def connect_auth_core_def Let_def)

text \<open>
  C2 (as amended). For every configuration, the authentication part of the JetStream
  \<open>connect\<close> takes the first branch that matches, in this order: a credentials-file path
  gives the credentials authenticator of the file's bytes when the file can be read, and
  throws the read error when it cannot, with no other branch tried; else an inline JWT
  and key give the synthesized blob; else a JWT alone gives the JWT authenticator; else
  a key alone gives the key authenticator; else no authenticator is set and a warning is
  logged.
\<close>

theorem C2_first_match:
  "(truthy (jwtFile n) \<and> fs (the (jwtFile n)) = Some text \<longrightarrow>
      connect_auth fs n opts c =
        (Inr (opts\<lparr>opt_authenticator := Some (credsAuthenticator (TextEncoder_encode text))\<rparr>),
         logger_info ''Using credentials file authentication'' c)) \<and>
   (truthy (jwtFile n) \<and> fs (the (jwtFile n)) = None \<longrightarrow>
      connect_auth fs n opts c =
        (Inl (ENOENT (the (jwtFile n))),
         logger_info ''Using credentials file authentication'' c)) \<and>
   (\<not> truthy (jwtFile n) \<and> truthy (jwt n) \<and> truthy (nkey n) \<longrightarrow>
      connect_auth fs n opts c =
        (Inr (opts\<lparr>opt_authenticator := Some (credsAuthenticator
                 (TextEncoder_encode (creds_text (the (jwt n)) (the (nkey n)))))\<rparr>),
         logger_info ''Using inline JWT + NKey authentication'' c)) \<and>
   (\<not> truthy (jwtFile n) \<and> truthy (jwt n) \<and> \<not> truthy (nkey n) \<longrightarrow>
      connect_auth fs n opts c =
        (Inr (opts\<lparr>opt_authenticator := Some (jwtAuthenticator (the (jwt n)))\<rparr>),
         logger_info ''Using JWT authentication'' c)) \<and>
   (\<not> truthy (jwtFile n) \<and> \<not> truthy (jwt n) \<and> truthy (nkey n) \<longrightarrow>
      connect_auth fs n opts c =
        (Inr (opts\<lparr>opt_authenticator :=
                 Some (nkeyAuthenticator (TextEncoder_encode (the (nkey n))))\<rparr>),
         logger_info ''Using NKey authentication'' c)) \<and>
   (\<not> truthy (jwtFile n) \<and> \<not> truthy (jwt n) \<and> \<not> truthy (nkey n) \<longrightarrow>
      connect_auth fs n opts c =
        (Inr opts,
         logger_warn ''No authentication configured - using anonymous connection'' c))"
  by (simp add: connect_auth_def readFileSync_def Let_def)

theorem C2_first_match_witness:
  "(truthy (jwtFile (bare\<lparr>jwtFile := Some ''u.creds'', jwt := Some ''J''\<rparr>)) \<and>
    [''u.creds'' \<mapsto> ''abc''] (the (jwtFile (bare\<lparr>jwtFile := Some ''u.creds'', jwt := Some ''J''\<rparr>)))
      = Some ''abc'' \<and>
    fst (connect_auth [''u.creds'' \<mapsto> ''abc''] (bare\<lparr>jwtFile := Some ''u.creds'', jwt := Some ''J''\<rparr>)
           default_opts fresh) =
      Inr (default_opts\<lparr>opt_authenticator := Some (credsAuthenticator ''abc'')\<rparr>)) \<and>
   (truthy (jwtFile (bare\<lparr>jwtFile := Some ''u.creds'', jwt := Some ''J''\<rparr>)) \<and>
    Map.empty (the (jwtFile (bare\<lparr>jwtFile := Some ''u.creds'', jwt := Some ''J''\<rparr>))) = None \<and>
    fst (connect_auth Map.empty (bare\<lparr>jwtFile := Some ''u.creds'', jwt := Some ''J''\<rparr>)
           default_opts fresh) =
      Inl (Error (''ENOENT: no such file or directory, open '' @ [CHR 0x27] @ ''u.creds'' @
                  [CHR 0x27]))) \<and>
   (\<not> truthy (jwtFile (bare\<lparr>jwt := Some ''J'', nkey := Some ''K''\<rparr>)) \<and>
    truthy (jwt (bare\<lparr>jwt := Some ''J'', nkey := Some ''K''\<rparr>)) \<and>
    truthy (nkey (bare\<lparr>jwt := Some ''J'', nkey := Some ''K''\<rparr>)) \<and>
    fst (connect_auth Map.empty (bare\<lparr>jwt := Some ''J'', nkey := Some ''K''\<rparr>) default_opts fresh) =
      Inr (default_opts\<lparr>opt_authenticator := Some (credsAuthenticator (creds_text ''J'' ''K''))\<rparr>)) \<and>
   (\<not> truthy (jwtFile (bare\<lparr>jwt := Some ''J''\<rparr>)) \<and> truthy (jwt (bare\<lparr>jwt := Some ''J''\<rparr>)) \<and>
    \<not> truthy (nkey (bare\<lparr>jwt := Some ''J''\<rparr>)) \<and>
    fst (connect_auth Map.empty (bare\<lparr>jwt := Some ''J''\<rparr>) default_opts fresh) =
      Inr (default_opts\<lparr>opt_authenticator := Some (jwtAuthenticator ''J'')\<rparr>)) \<and>
   (\<not> truthy (jwtFile (bare\<lparr>nkey := Some ''K''\<rparr>)) \<and> \<not> truthy (jwt (bare\<lparr>nkey := Some ''K''\<rparr>)) \<and>
    truthy (nkey (bare\<lparr>nkey := Some ''K''\<rparr>)) \<and>
    fst (connect_auth Map.empty (bare\<lparr>nkey := Some ''K''\<rparr>) default_opts fresh) =
      Inr (default_opts\<lparr>opt_authenticator := Some (nkeyAuthenticator ''K'')\<rparr>)) \<and>
   (\<not> truthy (jwtFile bare) \<and> \<not> truthy (jwt bare) \<and> \<not> truthy (nkey bare) \<and>
    connect_auth Map.empty bare default_opts fresh =
      (Inr default_opts,
       logger_warn ''No authentication configured - using anonymous connection'' fresh))"
  using C2_first_match [of "bare\<lparr>jwtFile := Some ''u.creds'', jwt := Some ''J''\<rparr>"
          "[''u.creds'' \<mapsto> ''abc'']" "''abc''" default_opts fresh]
        C2_first_match [of "bare\<lparr>jwtFile := Some ''u.creds'', jwt := Some ''J''\<rparr>"
          Map.empty "''abc''" default_opts fresh]
        C2_first_match [of "bare\<lparr>jwt := Some ''J'', nkey := Some ''K''\<rparr>"
          Map.empty "''abc''" default_opts fresh]
        C2_first_match [of "bare\<lparr>jwt := Some ''J''\<rparr>" Map.empty "''abc''" default_opts fresh]
        C2_first_match [of "bare\<lparr>nkey := Some ''K''\<rparr>" Map.empty "''abc''" default_opts fresh]
        C2_first_match [of bare Map.empty "''abc''" default_opts fresh]
  by (simp add: bare_def TextEncoder_encode_def utf8_unit_def creds_text_def ENOENT_def)

text \<open>
  C2 as stated fails where the credentials-file path names no readable file: the
  JetStream \<open>connect\<close> picks no credential at all and throws, although an inline JWT and
  key are configured.
\<close>

theorem C2_missing_file_counterexample:
  "fst (connect_auth Map.empty
          (bare\<lparr>jwtFile := Some ''missing.creds'', jwt := Some ''J'', nkey := Some ''K''\<rparr>)
          default_opts fresh) =
     Inl (Error (''ENOENT: no such file or directory, open '' @ [CHR 0x27] @ ''missing.creds'' @
                 [CHR 0x27]))"
  by (simp add: connect_auth_def readFileSync_def bare_def ENOENT_def)

section \<open>Message handling\<close>

lemma processTransaction_fst: "fst (processTransaction L nm d c) = None"
  by (simp add: processTransaction_def Let_def split: sum.splits)

lemma processTransaction_fields:
  "messageCount (snd (processTransaction L nm d c)) = messageCount c \<and>
   parser_messageCount (parser (snd (processTransaction L nm d c))) =
     parser_messageCount (parser c) + 1 \<and>
   sinkCalls (snd (processTransaction L nm d c)) = sinkCalls c @ [(nm, d)] \<and>
   running (snd (processTransaction L nm d c)) = running c \<and>
   acked (snd (processTransaction L nm d c)) = acked c"
  by (simp add: processTransaction_def Let_def logger_error_def console_log_def split: sum.splits)

lemma handleMessage_fst: "fst (handleMessage L nm b c) = None"
  by (simp add: handleMessage_def Let_def split: sum.splits prod.splits option.splits)

lemma handleMessage_Some:
  assumes "decoded L b = Some v"
  shows "snd (handleMessage L nm b c) =
         snd (processTransaction L nm v (c\<lparr>messageCount := messageCount c + 1\<rparr>))"
  using assms processTransaction_fst [of L nm v "c\<lparr>messageCount := messageCount c + 1\<rparr>"]
  by (auto simp add: handleMessage_def decoded_def Let_def split: sum.splits prod.splits option.splits)

lemma handleMessage_None:
  assumes "decoded L b = None"
  shows "snd (handleMessage L nm b c) =
         logger_error ''Failed to parse message as JSON:'' (c\<lparr>messageCount := messageCount c + 1\<rparr>)"
  using assms
  by (auto simp add: handleMessage_def decoded_def Let_def split: sum.splits)

lemma handleMessage_counts:
  "messageCount (snd (handleMessage L nm b c)) = messageCount c + 1 \<and>
   parser_messageCount (parser (snd (handleMessage L nm b c))) =
     parser_messageCount (parser c) + (if decoded L b = None then 0 else 1) \<and>
   sinkCalls (snd (handleMessage L nm b c)) =
     sinkCalls c @ (case decoded L b of None \<Rightarrow> [] | Some v \<Rightarrow> [(nm, v)])"
proof (cases "decoded L b")
  case None
  then show ?thesis
    by (simp add: handleMessage_None logger_error_def)
next
  case (Some v)
  then show ?thesis
    by (simp add: handleMessage_Some processTransaction_fields)
qed

lemma handleMessage_frame:
  "running (snd (handleMessage L nm b c)) = running c \<and>
   acked (snd (handleMessage L nm b c)) = acked c"
proof (cases "decoded L b")
  case None
  then show ?thesis
    by (simp add: handleMessage_None logger_error_def)
next
  case (Some v)
  then show ?thesis
    by (simp add: handleMessage_Some processTransaction_fields)
qed

lemma handleMessages_counts:
  "messageCount (handleMessages L nm bs c) = messageCount c + length bs \<and>
   parser_messageCount (parser (handleMessages L nm bs c)) =
     parser_messageCount (parser c) + length (filter (\<lambda>b. decoded L b \<noteq> None) bs) \<and>
   sinkCalls (handleMessages L nm bs c) =
     sinkCalls c @ map (\<lambda>b. (nm, the (decoded L b))) (filter (\<lambda>b. decoded L b \<noteq> None) bs)"
proof (induction bs arbitrary: c)
  case Nil
  then show ?case by simp
next
  case (Cons b bs)
  show ?case
    using Cons.IH [of "snd (handleMessage L nm b c)"] handleMessage_counts [of L nm b c]
    by (cases "decoded L b") simp_all
qed

lemma decoded_with_codec:
  "StringCodec_decode L = (\<lambda>bytes. Inr (TextDecoder_decode bytes)) \<Longrightarrow>
   decoded L b =
     (case JSON_parse L (TextDecoder_decode b) of Inl err \<Rightarrow> None | Inr v \<Rightarrow> Some v)"
  by (simp add: decoded_def)

text \<open>
  C3 (as amended). Fed any sequence of payloads, the handler counts every payload as
  received; it counts as processed exactly the payloads for which the codec's \<open>decode\<close>
  followed by \<open>JSON.parse\<close> returns a value, and calls \<open>processTransaction\<close> once for each
  of these, in order, with the stream name and that value. For one payload: a payload
  for which they return a value adds 1 to the processed counter and one call of the
  sink; a payload for which one of them throws leaves the processed counter and the
  calls of the sink as they were. With the codec of the nats client the decoding never
  throws, so that only \<open>JSON.parse\<close> of the decoded text decides, whether or not the bytes
  are valid UTF-8.
\<close>

theorem C3_handler_counts:
  "messageCount (handleMessages L nm bs c) = messageCount c + length bs \<and>
   parser_messageCount (parser (handleMessages L nm bs c)) =
     parser_messageCount (parser c) + length (filter (\<lambda>b. decoded L b \<noteq> None) bs) \<and>
   sinkCalls (handleMessages L nm bs c) =
     sinkCalls c @ map (\<lambda>b. (nm, the (decoded L b))) (filter (\<lambda>b. decoded L b \<noteq> None) bs) \<and>
   messageCount (snd (handleMessage L nm b c)) = messageCount c + 1 \<and>
   (decoded L b = Some v \<longrightarrow>
      parser_messageCount (parser (snd (handleMessage L nm b c))) =
        parser_messageCount (parser c) + 1 \<and>
      sinkCalls (snd (handleMessage L nm b c)) = sinkCalls c @ [(nm, v)]) \<and>
   (decoded L b = None \<longrightarrow>
      parser_messageCount (parser (snd (handleMessage L nm b c))) =
        parser_messageCount (parser c) \<and>
      sinkCalls (snd (handleMessage L nm b c)) = sinkCalls c) \<and>
   (StringCodec_decode K = (\<lambda>bytes. Inr (TextDecoder_decode bytes)) \<longrightarrow>
      decoded K p =
        (case JSON_parse K (TextDecoder_decode p) of Inl err \<Rightarrow> None | Inr w \<Rightarrow> Some w))"
  using handleMessages_counts [of L nm bs c] handleMessage_counts [of L nm b c]
        decoded_with_codec [of K p]
  by auto

lemma TextDecoder_decode_example:
  "TextDecoder_decode [CHR 0x22, CHR 0xFF, CHR 0x22] = [0x22, 0xFFFD, 0x22] \<and>
   \<not> valid_utf8 [CHR 0x22, CHR 0xFF, CHR 0x22]"
  by (simp add: TextDecoder_decode_def valid_utf8_def utf8_decode.simps emit_def replaced_def
        utf16_units_def)

lemma decoded_example:
  "decoded (example_lib drain_lenient) ''22'' = Some 22 \<and>
   decoded (example_lib drain_lenient) ''1'' = Some 1 \<and>
   decoded (example_lib drain_lenient) ''not-json'' = None"
  by (simp add: decoded_def example_lib_def digit_of_def)

text \<open>
  The theorem on the payloads \<open>1\<close>, \<open>not-json\<close> and \<open>22\<close>, and with the codec of the nats
  client on the three bytes \<open>22 FF 22\<close>.
\<close>

theorem C3_handler_counts_witness:
  "decoded (example_lib drain_lenient) ''22'' = Some 22 \<and>
   parser_messageCount (parser (snd (handleMessage (example_lib drain_lenient) ''pumpfun'' ''22'' fresh))) = 1 \<and>
   sinkCalls (snd (handleMessage (example_lib drain_lenient) ''pumpfun'' ''22'' fresh)) = [(''pumpfun'', 22)] \<and>
   decoded (example_lib drain_lenient) ''not-json'' = None \<and>
   parser_messageCount (parser (snd (handleMessage (example_lib drain_lenient) ''pumpfun'' ''not-json'' fresh))) = 0 \<and>
   sinkCalls (snd (handleMessage (example_lib drain_lenient) ''pumpfun'' ''not-json'' fresh)) = [] \<and>
   messageCount (handleMessages (example_lib drain_lenient) ''pumpfun'' [''1'', ''not-json'', ''22''] fresh) = 3 \<and>
   parser_messageCount (parser (handleMessages (example_lib drain_lenient) ''pumpfun'' [''1'', ''not-json'', ''22''] fresh)) = 2 \<and>
   sinkCalls (handleMessages (example_lib drain_lenient) ''pumpfun'' [''1'', ''not-json'', ''22''] fresh) =
     [(''pumpfun'', 1), (''pumpfun'', 22)] \<and>
   StringCodec_decode codec_lib = (\<lambda>bytes. Inr (TextDecoder_decode bytes)) \<and>
   decoded codec_lib [CHR 0x22, CHR 0xFF, CHR 0x22] = Some [0xFFFD]"
proof -
  have k: "StringCodec_decode codec_lib = (\<lambda>bytes. Inr (TextDecoder_decode bytes))"
    by (simp add: codec_lib_def)
  have j: "JSON_parse codec_lib [0x22, 0xFFFD, 0x22] = Inr [0xFFFD]"
    by (simp add: codec_lib_def parse_plain_string_def plain_unit_def)
  show ?thesis
    using C3_handler_counts [of "example_lib drain_lenient" "''pumpfun''" "[''1'', ''not-json'', ''22'']"
            fresh "''22''" 22 codec_lib "[CHR 0x22, CHR 0xFF, CHR 0x22]"]
          C3_handler_counts [of "example_lib drain_lenient" "''pumpfun''" "[''1'', ''not-json'', ''22'']"
            fresh "''not-json''" 0 codec_lib "[CHR 0x22, CHR 0xFF, CHR 0x22]"]
          k j decoded_example TextDecoder_decode_example
    by (simp add: fresh_def new_NATSConsumer_def)
qed

text \<open>
  C3 as stated fails with the codec of the nats client at the payload \<open>22 FF 22\<close>, a
  quotation mark, the byte FF and a quotation mark. The payload is not valid UTF-8, yet
  it is decoded, to a string literal holding U+FFFD, and parsed: the processed counter
  goes up by 1 and the sink is called with that string.
\<close>

theorem C3_invalid_utf8_counterexample:
  "\<not> valid_utf8 [CHR 0x22, CHR 0xFF, CHR 0x22] \<and>
   parser_messageCount (parser (snd (handleMessage codec_lib ''pumpfun''
      [CHR 0x22, CHR 0xFF, CHR 0x22] new_NATSConsumer))) = 1 \<and>
   sinkCalls (snd (handleMessage codec_lib ''pumpfun''
      [CHR 0x22, CHR 0xFF, CHR 0x22] new_NATSConsumer)) = [(''pumpfun'', [0xFFFD])]"
  by (simp add: TextDecoder_decode_example handleMessage_def processTransaction_def
        codec_lib_def parse_plain_string_def stringify_plain_string_def plain_unit_def
        console_log_def new_NATSConsumer_def Let_def)

lemma deliver_with_handleMessage:
  "deliver_with (handleMessage L) nm m c =
     (snd (handleMessage L nm (msg_data m) c))\<lparr>acked := acked c @ [m]\<rparr>"
  using handleMessage_fst [of L nm "msg_data m" c] handleMessage_frame [of L nm "msg_data m" c]
  by (cases "handleMessage L nm (msg_data m) c") (simp add: deliver_with_def)

lemma deliver_core_with_handleMessage:
  "deliver_core_with (handleMessage L) nm m c = snd (handleMessage L nm (msg_data m) c)"
  using handleMessage_fst [of L nm "msg_data m" c]
  by (cases "handleMessage L nm (msg_data m) c") (simp add: deliver_core_with_def)

lemma processTransaction_logs_failure:
  "isl (JSON_stringify L d) \<Longrightarrow>
   logs (snd (processTransaction L nm d c)) =
     logs c @ [(Err, ''Error processing message from '' @ nm @ '':'')]"
  by (cases "JSON_stringify L d")
     (simp_all add: processTransaction_def Let_def logger_error_def console_log_def)

text \<open>
  C10. Whatever the payload and whatever the codec, \<open>JSON.parse\<close> and the printing do,
  \<open>handleMessage\<close> and \<open>processTransaction\<close> complete normally. A payload that does not
  decode or parse is logged by \<open>handleMessage\<close>, a failure of the printing is logged by
  \<open>processTransaction\<close>, and in both receive loops the turn for a message is the handler
  followed (JetStream) by the acknowledgement: the \<open>catch\<close> of the loop adds nothing.
\<close>

theorem C10_handler_never_throws:
  "fst (handleMessage L nm b c) = None \<and>
   fst (processTransaction L nm d c) = None \<and>
   (decoded L b = None \<longrightarrow>
      logs (snd (handleMessage L nm b c)) = logs c @ [(Err, ''Failed to parse message as JSON:'')]) \<and>
   (isl (JSON_stringify L d) \<longrightarrow>
      logs (snd (processTransaction L nm d c)) =
        logs c @ [(Err, ''Error processing message from '' @ nm @ '':'')]) \<and>
   deliver_with (handleMessage L) nm m c =
     (snd (handleMessage L nm (msg_data m) c))\<lparr>acked := acked c @ [m]\<rparr> \<and>
   deliver_core_with (handleMessage L) nm m c = snd (handleMessage L nm (msg_data m) c)"
  by (simp add: handleMessage_fst processTransaction_fst handleMessage_None logger_error_def
        processTransaction_logs_failure deliver_with_handleMessage deliver_core_with_handleMessage)

theorem C10_handler_never_throws_witness:
  "decoded (example_lib drain_lenient) ''not-json'' = None \<and>
   fst (handleMessage (example_lib drain_lenient) ''pumpfun'' ''not-json'' fresh) = None \<and>
   logs (snd (handleMessage (example_lib drain_lenient) ''pumpfun'' ''not-json'' fresh)) =
     [(Info, ''Parser initialized''), (Err, ''Failed to parse message as JSON:'')] \<and>
   isl (JSON_stringify ((example_lib drain_lenient)\<lparr>JSON_stringify := \<lambda>v. Inl (Error ''cyclic'')\<rparr>) 7) \<and>
   fst (processTransaction ((example_lib drain_lenient)\<lparr>JSON_stringify := \<lambda>v. Inl (Error ''cyclic'')\<rparr>)
          ''pumpfun'' 7 fresh) = None \<and>
   logs (snd (processTransaction ((example_lib drain_lenient)\<lparr>JSON_stringify := \<lambda>v. Inl (Error ''cyclic'')\<rparr>)
          ''pumpfun'' 7 fresh)) =
     [(Info, ''Parser initialized''), (Err, ''Error processing message from pumpfun:'')]"
  using C10_handler_never_throws [of "example_lib drain_lenient" "''pumpfun''" "''not-json''" fresh
          7 "\<lparr>msg_seq = 1, msg_data = ''not-json''\<rparr>"]
        C10_handler_never_throws [of "(example_lib drain_lenient)\<lparr>JSON_stringify := \<lambda>v. Inl (Error ''cyclic'')\<rparr>"
          "''pumpfun''" "''not-json''" fresh 7 "\<lparr>msg_seq = 1, msg_data = ''not-json''\<rparr>"]
  by (simp add: decoded_def example_lib_def digit_of_def fresh_def new_NATSConsumer_def)

section \<open>The receive loop\<close>

lemma deliver_with_acked:
  "acked (deliver_with h nm m c) = acked (snd (h nm (msg_data m) c)) @ [m]"
  by (cases "h nm (msg_data m) c")
     (simp add: deliver_with_def logger_error_def Let_def split: option.splits)

lemma deliver_with_running:
  "running (deliver_with h nm m c) = running (snd (h nm (msg_data m) c))"
  by (cases "h nm (msg_data m) c")
     (simp add: deliver_with_def logger_error_def Let_def split: option.splits)

lemma deliver_with_logs:
  "logs (deliver_with h nm m c) =
     logs (snd (h nm (msg_data m) c)) @
     (case fst (h nm (msg_data m) c) of
        None \<Rightarrow> []
      | Some err \<Rightarrow> [(Err, ''Error handling message from '' @ nm @ '':'')])"
  by (cases "h nm (msg_data m) c")
     (simp add: deliver_with_def logger_error_def Let_def split: option.splits)

lemma receive_loop_with_acks_all:
  assumes frame: "\<forall>n b s. running (snd (h n b s)) = running s \<and> acked (snd (h n b s)) = acked s"
  shows "running c \<Longrightarrow>
         acked (receive_loop_with h nm ms c) = acked c @ ms \<and> running (receive_loop_with h nm ms c)"
proof (induction ms arbitrary: c)
  case Nil
  then show ?case by simp
next
  case (Cons m ms)
  have r: "running (deliver_with h nm m c)"
    using Cons.prems frame by (simp add: deliver_with_running)
  have a: "acked (deliver_with h nm m c) = acked c @ [m]"
    using frame by (simp add: deliver_with_acked)
  show ?case
    using Cons.IH [OF r] Cons.prems a by simp
qed

text \<open>
  C5. In one turn of the JetStream receive loop the message is acknowledged once after
  the handler, whether the handler returned or threw; when it threw, the error is logged
  first. The turn itself never throws, so while the consumer is running the loop goes on
  to the next message: with a handler that leaves the running flag and the
  acknowledgements alone, and so with \<open>handleMessage\<close>, every message of the sequence is
  acknowledged, in order. The loop stops, acknowledging nothing more, only when the
  running flag is off.
\<close>

theorem C5_ack_after_handler:
  "acked (deliver_with h nm m c) = acked (snd (h nm (msg_data m) c)) @ [m] \<and>
   (fst (h nm (msg_data m) c) = Some err \<longrightarrow>
      logs (deliver_with h nm m c) =
        logs (snd (h nm (msg_data m) c)) @ [(Err, ''Error handling message from '' @ nm @ '':'')]) \<and>
   (fst (h nm (msg_data m) c) = None \<longrightarrow>
      logs (deliver_with h nm m c) = logs (snd (h nm (msg_data m) c))) \<and>
   (running c \<longrightarrow>
      receive_loop_with h nm (m # ms) c = receive_loop_with h nm ms (deliver_with h nm m c)) \<and>
   (running c \<and>
    (\<forall>n b s. running (snd (h n b s)) = running s \<and> acked (snd (h n b s)) = acked s) \<longrightarrow>
      acked (receive_loop_with h nm ms c) = acked c @ ms \<and>
      running (receive_loop_with h nm ms c)) \<and>
   (running c \<longrightarrow> acked (receive_loop L nm ms c) = acked c @ ms) \<and>
   (\<not> running c \<longrightarrow> receive_loop_with h nm ms c = c)"
proof -
  have "running c \<Longrightarrow> acked (receive_loop L nm ms c) = acked c @ ms"
    unfolding receive_loop_def
    using receive_loop_with_acks_all [of "handleMessage L" c nm ms] handleMessage_frame [of L]
    by simp
  moreover have "\<not> running c \<Longrightarrow> receive_loop_with h nm ms c = c"
    by (cases ms) simp_all
  ultimately show ?thesis
    using receive_loop_with_acks_all [of h c nm ms]
    by (simp add: deliver_with_acked deliver_with_logs)
qed

theorem C5_ack_after_handler_witness:
  "fst (throwing_handler ''pumpfun'' (msg_data \<lparr>msg_seq = 1, msg_data = ''not-json''\<rparr>)
         (fresh\<lparr>running := True\<rparr>)) = Some (Error ''boom'') \<and>
   acked (deliver_with throwing_handler ''pumpfun'' \<lparr>msg_seq = 1, msg_data = ''not-json''\<rparr>
            (fresh\<lparr>running := True\<rparr>)) = [\<lparr>msg_seq = 1, msg_data = ''not-json''\<rparr>] \<and>
   logs (deliver_with throwing_handler ''pumpfun'' \<lparr>msg_seq = 1, msg_data = ''not-json''\<rparr>
            (fresh\<lparr>running := True\<rparr>)) =
     [(Info, ''Parser initialized''), (Err, ''Error handling message from pumpfun:'')] \<and>
   fst (handleMessage (example_lib drain_lenient) ''pumpfun''
          (msg_data \<lparr>msg_seq = 1, msg_data = ''not-json''\<rparr>) (fresh\<lparr>running := True\<rparr>)) = None \<and>
   logs (deliver_with (handleMessage (example_lib drain_lenient)) ''pumpfun''
           \<lparr>msg_seq = 1, msg_data = ''not-json''\<rparr> (fresh\<lparr>running := True\<rparr>)) =
     logs (snd (handleMessage (example_lib drain_lenient) ''pumpfun''
           (msg_data \<lparr>msg_seq = 1, msg_data = ''not-json''\<rparr>) (fresh\<lparr>running := True\<rparr>))) \<and>
   running (fresh\<lparr>running := True\<rparr>) \<and>
   (\<forall>n b s. running (snd (throwing_handler n b s)) = running s \<and>
            acked (snd (throwing_handler n b s)) = acked s) \<and>
   acked (receive_loop_with throwing_handler ''pumpfun''
            [\<lparr>msg_seq = 2, msg_data = ''7''\<rparr>, \<lparr>msg_seq = 3, msg_data = ''x''\<rparr>]
            (fresh\<lparr>running := True\<rparr>)) =
     [\<lparr>msg_seq = 2, msg_data = ''7''\<rparr>, \<lparr>msg_seq = 3, msg_data = ''x''\<rparr>] \<and>
   acked (receive_loop (example_lib drain_lenient) ''pumpfun''
            [\<lparr>msg_seq = 2, msg_data = ''7''\<rparr>, \<lparr>msg_seq = 3, msg_data = ''x''\<rparr>]
            (fresh\<lparr>running := True\<rparr>)) =
     [\<lparr>msg_seq = 2, msg_data = ''7''\<rparr>, \<lparr>msg_seq = 3, msg_data = ''x''\<rparr>] \<and>
   \<not> running fresh \<and>
   receive_loop_with throwing_handler ''pumpfun''
     [\<lparr>msg_seq = 2, msg_data = ''7''\<rparr>, \<lparr>msg_seq = 3, msg_data = ''x''\<rparr>] fresh = fresh"
  using C5_ack_after_handler [of throwing_handler "''pumpfun''" "\<lparr>msg_seq = 1, msg_data = ''not-json''\<rparr>"
          "fresh\<lparr>running := True\<rparr>" "Error ''boom''"
          "[\<lparr>msg_seq = 2, msg_data = ''7''\<rparr>, \<lparr>msg_seq = 3, msg_data = ''x''\<rparr>]"
          "example_lib drain_lenient"]
        C5_ack_after_handler [of "handleMessage (example_lib drain_lenient)" "''pumpfun''"
          "\<lparr>msg_seq = 1, msg_data = ''not-json''\<rparr>"
          "fresh\<lparr>running := True\<rparr>" "Error ''boom''"
          "[\<lparr>msg_seq = 2, msg_data = ''7''\<rparr>, \<lparr>msg_seq = 3, msg_data = ''x''\<rparr>]"
          "example_lib drain_lenient"]
        C5_ack_after_handler [of throwing_handler "''pumpfun''" "\<lparr>msg_seq = 1, msg_data = ''not-json''\<rparr>"
          fresh "Error ''boom''"
          "[\<lparr>msg_seq = 2, msg_data = ''7''\<rparr>, \<lparr>msg_seq = 3, msg_data = ''x''\<rparr>]"
          "example_lib drain_lenient"]
        handleMessage_fst [of "example_lib drain_lenient" "''pumpfun''" "''not-json''" "fresh\<lparr>running := True\<rparr>"]
  by (simp add: throwing_handler_def fresh_def new_NATSConsumer_def)

section \<open>Start and stop\<close>

lemma stop_running: "\<not> running (snd (stop L c))"
  by (simp add: stop_def Let_def Parser_stop_def logger_info_def clearInterval_def
        split: option.splits sum.splits)

lemma stop_timer:
  "statsIntervalTimer (snd (stop L c)) = statsIntervalTimer c \<and>
   timers (snd (stop L c)) =
     (case statsIntervalTimer c of None \<Rightarrow> timers c | Some t \<Rightarrow> removeAll t (timers c))"
  by (simp add: stop_def Let_def Parser_stop_def logger_info_def clearInterval_def
        split: option.splits sum.splits)

lemma stop_again:
  assumes "\<not> running c"
    and "\<forall>t. statsIntervalTimer c = Some t \<longrightarrow> t \<notin> set (timers c)"
  shows "(nc c = None \<longrightarrow>
            fst (stop L c) = None \<and> without_logs (snd (stop L c)) = without_logs c) \<and>
         (\<forall>conn. nc c = Some conn \<and> nats_drain L conn = Inr conn \<longrightarrow>
            fst (stop L c) = None \<and> without_logs (snd (stop L c)) = without_logs c) \<and>
         (\<forall>conn e. nc c = Some conn \<and> nats_drain L conn = Inl e \<longrightarrow>
            fst (stop L c) = Some e \<and> without_logs (snd (stop L c)) = without_logs c)"
  using assms
  by (auto simp add: stop_def Let_def Parser_stop_def logger_info_def clearInterval_def
        without_logs_def split: option.splits)

text \<open>
  C6 (as amended). After a \<open>stop\<close> that returned, the consumer is not running and its
  stats timer is not live. A second \<open>stop\<close> leaves the state as the first left it, log
  lines apart. It returns without error when no connection was ever opened, or when the
  client's \<open>drain\<close> accepts the drained connection and keeps it as it is; when the
  client's \<open>drain\<close> rejects the drained connection, the second \<open>stop\<close> throws that
  rejection.
\<close>

theorem C6_stop_twice:
  "stop L c = (None, c1) \<longrightarrow>
     \<not> running c1 \<and>
     (\<forall>t. statsIntervalTimer c1 = Some t \<longrightarrow> t \<notin> set (timers c1)) \<and>
     (nc c1 = None \<longrightarrow>
        fst (stop L c1) = None \<and> without_logs (snd (stop L c1)) = without_logs c1) \<and>
     (\<forall>conn. nc c1 = Some conn \<and> nats_drain L conn = Inr conn \<longrightarrow>
        fst (stop L c1) = None \<and> without_logs (snd (stop L c1)) = without_logs c1) \<and>
     (\<forall>conn e. nc c1 = Some conn \<and> nats_drain L conn = Inl e \<longrightarrow>
        fst (stop L c1) = Some e \<and> without_logs (snd (stop L c1)) = without_logs c1)"
proof
  assume s: "stop L c = (None, c1)"
  have r: "\<not> running c1"
    using stop_running [of L c] s by simp
  have t: "\<forall>t. statsIntervalTimer c1 = Some t \<longrightarrow> t \<notin> set (timers c1)"
    using stop_timer [of L c] s by (auto split: option.splits)
  show "\<not> running c1 \<and>
     (\<forall>t. statsIntervalTimer c1 = Some t \<longrightarrow> t \<notin> set (timers c1)) \<and>
     (nc c1 = None \<longrightarrow>
        fst (stop L c1) = None \<and> without_logs (snd (stop L c1)) = without_logs c1) \<and>
     (\<forall>conn. nc c1 = Some conn \<and> nats_drain L conn = Inr conn \<longrightarrow>
        fst (stop L c1) = None \<and> without_logs (snd (stop L c1)) = without_logs c1) \<and>
     (\<forall>conn e. nc c1 = Some conn \<and> nats_drain L conn = Inl e \<longrightarrow>
        fst (stop L c1) = Some e \<and> without_logs (snd (stop L c1)) = without_logs c1)"
    using r t stop_again [OF r t, of L] by blast
qed

lemma String_nat_4222: "String_nat 4222 = ''4222''"
  by (simp add: String_nat.simps)

lemma settings_default:
  "settings Map.empty Map.empty =
     Inr \<lparr>nats = bare,
          streams = [\<lparr>name = ''pumpfun'', subject = ''parsedtx.pumpfun'', stream = ''PARSED_PUMPFUN''\<rparr>,
                     \<lparr>name = ''pumpswap'', subject = ''parsedtx.pumpswap'', stream = ''PARSED_PUMPSWAP''\<rparr>],
          logLevel = ''info'', statsInterval = Num 5000\<rparr>"
  by (simp add: settings_def bare_def parseStreamConfig_def names_js_def subjects_js_def
        streams_js_def env_list_def or_default_def js_or_def loadCredentialFile_def parseInt_def
        is_ws_def digit_of_def trim_def Let_def)

lemma started_eq:
  "started d =
     \<lparr>nc = Some (NatsConnection False), messageCount = 0, running = True,
      parser = \<lparr>parser_messageCount = 0\<rparr>, statsIntervalTimer = Some 0,
      logs = [(Info, ''Parser initialized''), (Info, ''Starting consumer''),
              (Warn, ''No authentication configured - using anonymous connection''),
              (Info, ''Connected to NATS''),
              (Info, ''Subscribing to parsedtx.pumpfun on stream PARSED_PUMPFUN''),
              (Info, ''Successfully subscribed to pumpfun''),
              (Info, ''Subscribing to parsedtx.pumpswap on stream PARSED_PUMPSWAP''),
              (Info, ''Successfully subscribed to pumpswap'')],
      console = [], timers = [0], timerSeq = 1,
      connectCalls = [default_opts],
      subscriptions = [''pumpfun'', ''pumpswap''], acked = [], sinkCalls = []\<rparr>"
  by (simp add: started_def settings_default start_def connect_def connect_auth_def
        connect_tls_def connect_call_def bare_def default_opts_def example_lib_def subscribe_def
        reportStats_def logger_info_def logger_warn_def fresh_def new_NATSConsumer_def
        String_number_def String_nat_4222 Let_def)

lemma stop_started_lenient:
  "stop (example_lib drain_lenient) (started drain_lenient) =
     (None, snd (stop (example_lib drain_lenient) (started drain_lenient))) \<and>
   nc (snd (stop (example_lib drain_lenient) (started drain_lenient))) = Some (NatsConnection True)"
  by (simp add: started_eq stop_def example_lib_def drain_lenient_def Parser_stop_def
        logger_info_def clearInterval_def Let_def)

lemma stop_started_rejecting:
  "stop (example_lib drain_rejecting_closed) (started drain_rejecting_closed) =
     (None, snd (stop (example_lib drain_rejecting_closed) (started drain_rejecting_closed))) \<and>
   nc (snd (stop (example_lib drain_rejecting_closed) (started drain_rejecting_closed))) =
     Some (NatsConnection True) \<and>
   statsIntervalTimer (snd (stop (example_lib drain_rejecting_closed)
                                 (started drain_rejecting_closed))) = Some 0"
  by (simp add: started_eq stop_def example_lib_def drain_rejecting_closed_def Parser_stop_def
        logger_info_def clearInterval_def Let_def)

lemma stop_fresh:
  "stop (example_lib drain_lenient) fresh = (None, snd (stop (example_lib drain_lenient) fresh)) \<and>
   nc (snd (stop (example_lib drain_lenient) fresh)) = None"
  by (simp add: stop_def fresh_def new_NATSConsumer_def Parser_stop_def logger_info_def Let_def)

text \<open>
  The theorem at three consumers: one that never connected, and the consumer started
  under the default settings, once with a client whose \<open>drain\<close> accepts a closed
  connection and once with a client whose \<open>drain\<close> rejects it.
\<close>

theorem C6_stop_twice_witness:
  "(stop (example_lib drain_lenient) fresh = (None, snd (stop (example_lib drain_lenient) fresh)) \<and>
    nc (snd (stop (example_lib drain_lenient) fresh)) = None \<and>
    fst (stop (example_lib drain_lenient) (snd (stop (example_lib drain_lenient) fresh))) = None \<and>
    without_logs (snd (stop (example_lib drain_lenient) (snd (stop (example_lib drain_lenient) fresh)))) =
      without_logs (snd (stop (example_lib drain_lenient) fresh))) \<and>
   (stop (example_lib drain_lenient) (started drain_lenient) =
      (None, snd (stop (example_lib drain_lenient) (started drain_lenient))) \<and>
    nc (snd (stop (example_lib drain_lenient) (started drain_lenient))) = Some (NatsConnection True) \<and>
    nats_drain (example_lib drain_lenient) (NatsConnection True) = Inr (NatsConnection True) \<and>
    fst (stop (example_lib drain_lenient)
           (snd (stop (example_lib drain_lenient) (started drain_lenient)))) = None \<and>
    without_logs (snd (stop (example_lib drain_lenient)
           (snd (stop (example_lib drain_lenient) (started drain_lenient))))) =
      without_logs (snd (stop (example_lib drain_lenient) (started drain_lenient)))) \<and>
   (stop (example_lib drain_rejecting_closed) (started drain_rejecting_closed) =
      (None, snd (stop (example_lib drain_rejecting_closed) (started drain_rejecting_closed))) \<and>
    nc (snd (stop (example_lib drain_rejecting_closed) (started drain_rejecting_closed))) =
      Some (NatsConnection True) \<and>
    nats_drain (example_lib drain_rejecting_closed) (NatsConnection True) =
      Inl (Error ''CONNECTION_CLOSED'') \<and>
    fst (stop (example_lib drain_rejecting_closed)
           (snd (stop (example_lib drain_rejecting_closed) (started drain_rejecting_closed)))) =
      Some (Error ''CONNECTION_CLOSED'') \<and>
    without_logs (snd (stop (example_lib drain_rejecting_closed)
           (snd (stop (example_lib drain_rejecting_closed) (started drain_rejecting_closed))))) =
      without_logs (snd (stop (example_lib drain_rejecting_closed) (started drain_rejecting_closed))) \<and>
    \<not> running (snd (stop (example_lib drain_rejecting_closed) (started drain_rejecting_closed))) \<and>
    statsIntervalTimer (snd (stop (example_lib drain_rejecting_closed)
                                  (started drain_rejecting_closed))) = Some 0 \<and>
    0 \<notin> set (timers (snd (stop (example_lib drain_rejecting_closed)
                                (started drain_rejecting_closed)))))"
proof -
  have d1: "nats_drain (example_lib drain_lenient) (NatsConnection True) = Inr (NatsConnection True)"
    by (simp add: example_lib_def drain_lenient_def)
  have d2: "nats_drain (example_lib drain_rejecting_closed) (NatsConnection True) =
              Inl (Error ''CONNECTION_CLOSED'')"
    by (simp add: example_lib_def drain_rejecting_closed_def)
  show ?thesis
    using C6_stop_twice [of "example_lib drain_lenient" fresh
            "snd (stop (example_lib drain_lenient) fresh)"]
          C6_stop_twice [of "example_lib drain_lenient" "started drain_lenient"
            "snd (stop (example_lib drain_lenient) (started drain_lenient))"]
          C6_stop_twice [of "example_lib drain_rejecting_closed" "started drain_rejecting_closed"
            "snd (stop (example_lib drain_rejecting_closed) (started drain_rejecting_closed))"]
          stop_fresh stop_started_lenient stop_started_rejecting d1 d2
    by simp
qed

text \<open>
  C6 as stated fails with a client that rejects the drain of a closed connection, as the
  nats client does: started under the default settings and stopped once without error,
  the consumer throws \<open>CONNECTION_CLOSED\<close> from the second \<open>stop\<close>.
\<close>

theorem C6_second_stop_counterexample:
  "fst (stop (example_lib drain_rejecting_closed) (started drain_rejecting_closed)) = None \<and>
   fst (stop (example_lib drain_rejecting_closed)
          (snd (stop (example_lib drain_rejecting_closed) (started drain_rejecting_closed)))) =
     Some (Error ''CONNECTION_CLOSED'')"
  by (simp add: started_eq stop_def example_lib_def drain_rejecting_closed_def Parser_stop_def
        logger_info_def clearInterval_def Let_def)

lemma connect_core_not_configured:
  assumes "\<not> truthy (credsFile (nats_c s))"
    and "\<not> (truthy (userJwt (nats_c s)) \<and> truthy (userSeed (nats_c s)))"
  shows "connect_core L fs s c = (Some not_configured, logger_error (error_message not_configured) c)"
  using assms by (auto simp add: connect_core_def connect_auth_core_def Let_def)

text \<open>
  C8. In the core variant, which has no anonymous branch: for every configuration with
  no credentials file and without both an inline JWT and an inline seed, \<open>connect\<close> and
  with it \<open>start\<close> throw the not-configured error, after logging it; the client's
  \<open>connect\<close> is not called, no connection is stored, nothing is subscribed and the
  consumer is not set running.
\<close>

theorem C8_strict_not_configured:
  "\<not> truthy (credsFile (nats_c s)) \<and>
   \<not> (truthy (userJwt (nats_c s)) \<and> truthy (userSeed (nats_c s))) \<longrightarrow>
     fst (connect_core L fs s c) = Some not_configured \<and>
     fst (start_core L fs s c) = Some not_configured \<and>
     connectCalls (snd (start_core L fs s c)) = connectCalls c \<and>
     nc (snd (start_core L fs s c)) = nc c \<and>
     subscriptions (snd (start_core L fs s c)) = subscriptions c \<and>
     running (snd (start_core L fs s c)) = running c \<and>
     logs (snd (start_core L fs s c)) =
       logs c @ [(Info, ''Starting consumer''), (Err, error_message not_configured)]"
  by (simp add: start_core_def connect_core_not_configured logger_error_def logger_info_def Let_def)

lemma settings_core_default:
  "settings_core Map.empty =
     Inr \<lparr>nats_c = bare_core,
          streams_c = [\<lparr>name_c = ''basic-stream'', subject_c = ''basic.pumpfun''\<rparr>],
          logLevel_c = ''info'', statsInterval_c = Num 5000\<rparr>"
  by (simp add: settings_core_def bare_core_def parseStreamConfig_core_def names_core_def
        subjects_core_def env_list_def or_default_def js_or_def parseInt_def
        is_ws_def digit_of_def trim_def Let_def)

text \<open>The theorem at the settings loaded from an environment with no variable set.\<close>

theorem C8_strict_not_configured_witness:
  "\<not> truthy (credsFile (nats_c (projr (settings_core Map.empty)))) \<and>
   \<not> (truthy (userJwt (nats_c (projr (settings_core Map.empty)))) \<and>
      truthy (userSeed (nats_c (projr (settings_core Map.empty))))) \<and>
   fst (start_core (example_lib drain_lenient) Map.empty (projr (settings_core Map.empty)) fresh) =
     Some not_configured \<and>
   connectCalls (snd (start_core (example_lib drain_lenient) Map.empty
                        (projr (settings_core Map.empty)) fresh)) = [] \<and>
   nc (snd (start_core (example_lib drain_lenient) Map.empty
              (projr (settings_core Map.empty)) fresh)) = None \<and>
   \<not> running (snd (start_core (example_lib drain_lenient) Map.empty
                     (projr (settings_core Map.empty)) fresh))"
  using C8_strict_not_configured [of "projr (settings_core Map.empty)" "example_lib drain_lenient"
          Map.empty fresh]
  by (simp add: settings_core_default bare_core_def fresh_def new_NATSConsumer_def)

section \<open>Loading the configuration\<close>

text \<open>
  C4. When the lists of stream names and subjects (core variant), or of stream names,
  subjects and JetStream names (JetStream variant), do not all have the same length,
  loading the settings fails with the error "Stream configuration arrays must have the
  same length": the result is that error and no settings value.
\<close>

theorem C4_mismatched_lengths_fail:
  "(length (names_core e) \<noteq> length (subjects_core e) \<longrightarrow>
      settings_core e = Inl mismatch_error) \<and>
   (\<not> (length (names_js e) = length (subjects_js e) \<and>
       length (subjects_js e) = length (streams_js e)) \<longrightarrow>
      settings e fs = Inl mismatch_error)"
  by (simp add: settings_core_def settings_def parseStreamConfig_core_mismatch
        parseStreamConfig_mismatch Let_def)

theorem C4_mismatched_lengths_fail_witness:
  "length (names_core [''STREAM_NAMES'' \<mapsto> ''a,b,c'']) \<noteq>
     length (subjects_core [''STREAM_NAMES'' \<mapsto> ''a,b,c'']) \<and>
   settings_core [''STREAM_NAMES'' \<mapsto> ''a,b,c''] = Inl mismatch_error \<and>
   \<not> (length (names_js [''STREAM_NAMES'' \<mapsto> ''a,b,c'']) =
        length (subjects_js [''STREAM_NAMES'' \<mapsto> ''a,b,c'']) \<and>
      length (subjects_js [''STREAM_NAMES'' \<mapsto> ''a,b,c'']) =
        length (streams_js [''STREAM_NAMES'' \<mapsto> ''a,b,c''])) \<and>
   settings [''STREAM_NAMES'' \<mapsto> ''a,b,c''] Map.empty = Inl mismatch_error"
  using C4_mismatched_lengths_fail [of "[''STREAM_NAMES'' \<mapsto> ''a,b,c'']" Map.empty]
  by (simp add: names_core_def subjects_core_def names_js_def subjects_js_def streams_js_def
        env_list_def)

text \<open>
  C7. Let the list of stream names be the pieces of \<open>STREAM_NAMES\<close> between its commas, or
  the default list when the variable is not set, and likewise the subjects from
  \<open>STREAM_SUBJECTS\<close> and, in the JetStream variant, the stream ids from \<open>JETSTREAM_NAMES\<close>.
  When these lists all have the same length \<open>N\<close>, loading succeeds and the settings hold
  exactly \<open>N\<close> stream entries; the entry at position \<open>i\<close> pairs the trimmed \<open>i\<close>-th name
  with the trimmed \<open>i\<close>-th subject (and the trimmed \<open>i\<close>-th stream id).
\<close>

theorem C7_equal_lengths_give_targets:
  "(ns = (case e ''STREAM_NAMES'' of None \<Rightarrow> [''basic-stream''] | Some v \<Rightarrow> String_split v) \<and>
    sbs = (case e ''STREAM_SUBJECTS'' of None \<Rightarrow> [''basic.pumpfun''] | Some v \<Rightarrow> String_split v) \<and>
    length ns = N \<and> length sbs = N \<longrightarrow>
      \<not> isl (settings_core e) \<and>
      length (streams_c (projr (settings_core e))) = N \<and>
      (\<forall>i < N. streams_c (projr (settings_core e)) ! i =
           \<lparr>name_c = trim (ns ! i), subject_c = trim (sbs ! i)\<rparr>)) \<and>
   (jns = (case e ''STREAM_NAMES'' of
             None \<Rightarrow> [''pumpfun'', ''pumpswap''] | Some v \<Rightarrow> String_split v) \<and>
    jsbs = (case e ''STREAM_SUBJECTS'' of
              None \<Rightarrow> [''parsedtx.pumpfun'', ''parsedtx.pumpswap''] | Some v \<Rightarrow> String_split v) \<and>
    jids = (case e ''JETSTREAM_NAMES'' of
              None \<Rightarrow> [''PARSED_PUMPFUN'', ''PARSED_PUMPSWAP''] | Some v \<Rightarrow> String_split v) \<and>
    length jns = N \<and> length jsbs = N \<and> length jids = N \<longrightarrow>
      \<not> isl (settings e fs) \<and>
      length (streams (projr (settings e fs))) = N \<and>
      (\<forall>i < N. streams (projr (settings e fs)) ! i =
           \<lparr>name = trim (jns ! i), subject = trim (jsbs ! i), stream = trim (jids ! i)\<rparr>))"
  by (auto simp add: settings_core_def settings_def parseStreamConfig_core_def
        parseStreamConfig_def names_core_def subjects_core_def names_js_def subjects_js_def
        streams_js_def env_list_def Let_def)

text \<open>
  The theorem at \<open>STREAM_NAMES=a, b\<close> with \<open>STREAM_SUBJECTS=x.a ,x.b\<close> for the core variant,
  and at \<open>STREAM_NAMES=a, b,c\<close> with \<open>STREAM_SUBJECTS=x.a ,x.b,x.c\<close> and
  \<open>JETSTREAM_NAMES=A,B , C\<close> for the JetStream variant.
\<close>

theorem C7_equal_lengths_give_targets_witness:
  "length (String_split ''a, b'') = 2 \<and> length (String_split ''x.a ,x.b'') = 2 \<and>
   \<not> isl (settings_core [''STREAM_NAMES'' \<mapsto> ''a, b'', ''STREAM_SUBJECTS'' \<mapsto> ''x.a ,x.b'']) \<and>
   length (streams_c (projr (settings_core
      [''STREAM_NAMES'' \<mapsto> ''a, b'', ''STREAM_SUBJECTS'' \<mapsto> ''x.a ,x.b'']))) = 2 \<and>
   streams_c (projr (settings_core
      [''STREAM_NAMES'' \<mapsto> ''a, b'', ''STREAM_SUBJECTS'' \<mapsto> ''x.a ,x.b''])) ! 0 =
     \<lparr>name_c = ''a'', subject_c = ''x.a''\<rparr> \<and>
   streams_c (projr (settings_core
      [''STREAM_NAMES'' \<mapsto> ''a, b'', ''STREAM_SUBJECTS'' \<mapsto> ''x.a ,x.b''])) ! 1 =
     \<lparr>name_c = ''b'', subject_c = ''x.b''\<rparr> \<and>
   length (String_split ''a, b,c'') = 3 \<and> length (String_split ''x.a ,x.b,x.c'') = 3 \<and>
   length (String_split ''A,B , C'') = 3 \<and>
   \<not> isl (settings [''STREAM_NAMES'' \<mapsto> ''a, b,c'', ''STREAM_SUBJECTS'' \<mapsto> ''x.a ,x.b,x.c'',
                    ''JETSTREAM_NAMES'' \<mapsto> ''A,B , C''] Map.empty) \<and>
   length (streams (projr (settings
      [''STREAM_NAMES'' \<mapsto> ''a, b,c'', ''STREAM_SUBJECTS'' \<mapsto> ''x.a ,x.b,x.c'',
       ''JETSTREAM_NAMES'' \<mapsto> ''A,B , C''] Map.empty))) = 3 \<and>
   streams (projr (settings
      [''STREAM_NAMES'' \<mapsto> ''a, b,c'', ''STREAM_SUBJECTS'' \<mapsto> ''x.a ,x.b,x.c'',
       ''JETSTREAM_NAMES'' \<mapsto> ''A,B , C''] Map.empty)) ! 0 =
     \<lparr>name = ''a'', subject = ''x.a'', stream = ''A''\<rparr> \<and>
   streams (projr (settings
      [''STREAM_NAMES'' \<mapsto> ''a, b,c'', ''STREAM_SUBJECTS'' \<mapsto> ''x.a ,x.b,x.c'',
       ''JETSTREAM_NAMES'' \<mapsto> ''A,B , C''] Map.empty)) ! 1 =
     \<lparr>name = ''b'', subject = ''x.b'', stream = ''B''\<rparr> \<and>
   streams (projr (settings
      [''STREAM_NAMES'' \<mapsto> ''a, b,c'', ''STREAM_SUBJECTS'' \<mapsto> ''x.a ,x.b,x.c'',
       ''JETSTREAM_NAMES'' \<mapsto> ''A,B , C''] Map.empty)) ! 2 =
     \<lparr>name = ''c'', subject = ''x.c'', stream = ''C''\<rparr> \<and>
   length (streams (projr (settings Map.empty Map.empty))) = 2 \<and>
   streams (projr (settings Map.empty Map.empty)) ! 0 =
     \<lparr>name = ''pumpfun'', subject = ''parsedtx.pumpfun'', stream = ''PARSED_PUMPFUN''\<rparr> \<and>
   streams (projr (settings Map.empty Map.empty)) ! 1 =
     \<lparr>name = ''pumpswap'', subject = ''parsedtx.pumpswap'', stream = ''PARSED_PUMPSWAP''\<rparr>"
proof -
  let ?e = "[''STREAM_NAMES'' \<mapsto> ''a, b'', ''STREAM_SUBJECTS'' \<mapsto> ''x.a ,x.b'']"
  let ?j = "[''STREAM_NAMES'' \<mapsto> ''a, b,c'', ''STREAM_SUBJECTS'' \<mapsto> ''x.a ,x.b,x.c'',
             ''JETSTREAM_NAMES'' \<mapsto> ''A,B , C'']"
  have sp: "String_split ''a, b'' = [''a'', '' b'']"
    "String_split ''x.a ,x.b'' = [''x.a '', ''x.b'']"
    "String_split ''a, b,c'' = [''a'', '' b'', ''c'']"
    "String_split ''x.a ,x.b,x.c'' = [''x.a '', ''x.b'', ''x.c'']"
    "String_split ''A,B , C'' = [''A'', ''B '', '' C'']"
    by simp_all
  have t: "trim ''a'' = ''a''" "trim '' b'' = ''b''" "trim ''c'' = ''c''"
    "trim ''x.a '' = ''x.a''" "trim ''x.b'' = ''x.b''" "trim ''x.c'' = ''x.c''"
    "trim ''A'' = ''A''" "trim ''B '' = ''B''" "trim '' C'' = ''C''"
    "trim ''pumpfun'' = ''pumpfun''" "trim ''pumpswap'' = ''pumpswap''"
    "trim ''parsedtx.pumpfun'' = ''parsedtx.pumpfun''"
    "trim ''parsedtx.pumpswap'' = ''parsedtx.pumpswap''"
    "trim ''PARSED_PUMPFUN'' = ''PARSED_PUMPFUN''" "trim ''PARSED_PUMPSWAP'' = ''PARSED_PUMPSWAP''"
    by (simp_all add: trim_def is_ws_def)
  have core: "\<not> isl (settings_core ?e) \<and> length (streams_c (projr (settings_core ?e))) = 2 \<and>
      (\<forall>i < 2. streams_c (projr (settings_core ?e)) ! i =
           \<lparr>name_c = trim ([''a'', '' b''] ! i), subject_c = trim ([''x.a '', ''x.b''] ! i)\<rparr>)"
    using C7_equal_lengths_give_targets [of "[''a'', '' b'']" ?e "[''x.a '', ''x.b'']" 2]
    by (simp add: sp)
  have js: "\<not> isl (settings ?j Map.empty) \<and>
      length (streams (projr (settings ?j Map.empty))) = 3 \<and>
      (\<forall>i < 3. streams (projr (settings ?j Map.empty)) ! i =
           \<lparr>name = trim ([''a'', '' b'', ''c''] ! i),
            subject = trim ([''x.a '', ''x.b'', ''x.c''] ! i),
            stream = trim ([''A'', ''B '', '' C''] ! i)\<rparr>)"
    using C7_equal_lengths_give_targets [where e = ?j and N = 3 and fs = Map.empty
            and jns = "[''a'', '' b'', ''c'']" and jsbs = "[''x.a '', ''x.b'', ''x.c'']"
            and jids = "[''A'', ''B '', '' C'']"]
    by (simp add: sp)
  have dflt: "length (streams (projr (settings Map.empty Map.empty))) = 2 \<and>
      (\<forall>i < 2. streams (projr (settings Map.empty Map.empty)) ! i =
           \<lparr>name = trim ([''pumpfun'', ''pumpswap''] ! i),
            subject = trim ([''parsedtx.pumpfun'', ''parsedtx.pumpswap''] ! i),
            stream = trim ([''PARSED_PUMPFUN'', ''PARSED_PUMPSWAP''] ! i)\<rparr>)"
    using C7_equal_lengths_give_targets [where e = Map.empty and N = 2 and fs = Map.empty
            and jns = "[''pumpfun'', ''pumpswap'']"
            and jsbs = "[''parsedtx.pumpfun'', ''parsedtx.pumpswap'']"
            and jids = "[''PARSED_PUMPFUN'', ''PARSED_PUMPSWAP'']"]
    by simp
  have c0: "streams_c (projr (settings_core ?e)) ! 0 = \<lparr>name_c = ''a'', subject_c = ''x.a''\<rparr>"
    using core t by simp
  have c1: "streams_c (projr (settings_core ?e)) ! 1 = \<lparr>name_c = ''b'', subject_c = ''x.b''\<rparr>"
    using core t by simp
  have j0: "streams (projr (settings ?j Map.empty)) ! 0 =
      \<lparr>name = ''a'', subject = ''x.a'', stream = ''A''\<rparr>"
    using js t by simp
  have j1: "streams (projr (settings ?j Map.empty)) ! 1 =
      \<lparr>name = ''b'', subject = ''x.b'', stream = ''B''\<rparr>"
    using js t by simp
  have j2: "streams (projr (settings ?j Map.empty)) ! 2 =
      \<lparr>name = ''c'', subject = ''x.c'', stream = ''C''\<rparr>"
    using js t by simp
  have d0: "streams (projr (settings Map.empty Map.empty)) ! 0 =
      \<lparr>name = ''pumpfun'', subject = ''parsedtx.pumpfun'', stream = ''PARSED_PUMPFUN''\<rparr>"
    using dflt t by simp
  have d1: "streams (projr (settings Map.empty Map.empty)) ! 1 =
      \<lparr>name = ''pumpswap'', subject = ''parsedtx.pumpswap'', stream = ''PARSED_PUMPSWAP''\<rparr>"
    using dflt t by simp
  show ?thesis
    using core js dflt c0 c1 j0 j1 j2 d0 d1 by (simp add: sp)
qed

lemma parseInt_5000: "parseInt ''5000'' = Num 5000"
  by (simp add: parseInt_def is_ws_def digit_of_def)

text \<open>
  C9 (as amended). The stats interval of every settings value the loader produces is
  \<open>parseInt(STATS_INTERVAL || '5000')\<close>, with no check of the result: it is 5000, which
  is greater than 0, when \<open>STATS_INTERVAL\<close> is absent or empty, and otherwise whatever
  \<open>parseInt\<close> makes of the text.
\<close>

theorem C9_stats_interval:
  "(\<not> isl (settings_core e) \<longrightarrow>
      statsInterval_c (projr (settings_core e)) =
        parseInt (or_default (e ''STATS_INTERVAL'') ''5000'')) \<and>
   (\<not> isl (settings e fs) \<longrightarrow>
      statsInterval (projr (settings e fs)) =
        parseInt (or_default (e ''STATS_INTERVAL'') ''5000'')) \<and>
   (\<not> truthy (e ''STATS_INTERVAL'') \<and> \<not> isl (settings_core e) \<longrightarrow>
      statsInterval_c (projr (settings_core e)) = Num 5000 \<and>
      positive (statsInterval_c (projr (settings_core e)))) \<and>
   (\<not> truthy (e ''STATS_INTERVAL'') \<and> \<not> isl (settings e fs) \<longrightarrow>
      statsInterval (projr (settings e fs)) = Num 5000 \<and>
      positive (statsInterval (projr (settings e fs))))"
  by (auto simp add: settings_core_def settings_def Let_def or_default_def parseInt_5000
        positive_def split: sum.splits)

theorem C9_stats_interval_witness:
  "\<not> truthy (Map.empty ''STATS_INTERVAL'') \<and>
   \<not> isl (settings_core Map.empty) \<and>
   statsInterval_c (projr (settings_core Map.empty)) = Num 5000 \<and>
   positive (statsInterval_c (projr (settings_core Map.empty))) \<and>
   \<not> isl (settings Map.empty Map.empty) \<and>
   statsInterval (projr (settings Map.empty Map.empty)) = Num 5000 \<and>
   positive (statsInterval (projr (settings Map.empty Map.empty)))"
proof -
  have h: "\<not> truthy (Map.empty ''STATS_INTERVAL'')"
    by simp
  have a: "\<not> isl (settings_core Map.empty)"
    by (simp add: settings_core_default)
  have b: "\<not> isl (settings Map.empty Map.empty)"
    by (simp add: settings_default)
  show ?thesis
    using C9_stats_interval [of Map.empty Map.empty] h a b by blast
qed

text \<open>
  C9 as stated fails: with \<open>STATS_INTERVAL\<close> set to \<open>0\<close> the loader of the core variant
  produces settings whose stats interval is 0, with \<open>-5\<close> settings whose stats interval
  is \<open>-5\<close>, and with \<open>STATS_INTERVAL\<close> set to \<open>abc\<close> the loader of the JetStream variant
  produces settings whose stats interval is \<open>NaN\<close>; none of these is greater than 0.
\<close>

theorem C9_zero_interval_counterexample:
  "\<not> isl (settings_core [''STATS_INTERVAL'' \<mapsto> ''0'']) \<and>
   statsInterval_c (projr (settings_core [''STATS_INTERVAL'' \<mapsto> ''0''])) = Num 0 \<and>
   \<not> positive (statsInterval_c (projr (settings_core [''STATS_INTERVAL'' \<mapsto> ''0'']))) \<and>
   \<not> isl (settings_core [''STATS_INTERVAL'' \<mapsto> ''-5'']) \<and>
   statsInterval_c (projr (settings_core [''STATS_INTERVAL'' \<mapsto> ''-5''])) = Num (- 5) \<and>
   \<not> positive (statsInterval_c (projr (settings_core [''STATS_INTERVAL'' \<mapsto> ''-5'']))) \<and>
   \<not> isl (settings [''STATS_INTERVAL'' \<mapsto> ''abc''] Map.empty) \<and>
   statsInterval (projr (settings [''STATS_INTERVAL'' \<mapsto> ''abc''] Map.empty)) = NaN \<and>
   \<not> positive (statsInterval (projr (settings [''STATS_INTERVAL'' \<mapsto> ''abc''] Map.empty)))"
  by (simp add: settings_core_def settings_def parseStreamConfig_core_def parseStreamConfig_def
        names_core_def subjects_core_def names_js_def subjects_js_def streams_js_def
        env_list_def or_default_def parseInt_def is_ws_def digit_of_def positive_def Let_def)

end
